theory Spec2Isabelle
  imports Main "HOL-Library.Sublist"
begin

section \<open>vault-warden: the unseal reconciler and the audit monitor of main.go\<close>

text \<open>
  The embedding follows the current \<^verbatim>\<open>main.go\<close> (the first of the three versions kept in
  the source file). Go strings are byte strings, so they are \<^typ>\<open>string\<close>; the emoji of the
  titles are written as their UTF-8 bytes. Everything the program does to the outside (HTTP
  requests to the secrets server, webhook posts, lines printed) is appended to a log in an
  explicit state; everything the outside answers is read from an environment record.
\<close>

subsection \<open>Structs\<close>

text \<open>The text of a Go \<^verbatim>\<open>error\<close> value handed back by a library call.\<close>

type_synonym err = string

record VaultConfig =
  Address :: string
  UnsealKeys :: "string list"
  WebhookURL :: string
  AuditLog :: string

record VaultStatus =
  Sealed :: bool
  Initialized :: bool
  Progress :: int
  Threshold :: int

text \<open>\<^verbatim>\<open>AuditEntry\<close>: the nested fields \<^verbatim>\<open>Request.Path\<close> and \<^verbatim>\<open>Auth.DisplayName\<close>, and \<^verbatim>\<open>Error\<close>.\<close>

record AuditEntry =
  Request_Path :: string
  Auth_DisplayName :: string
  Error :: string

record DiscordEmbed =
  Title :: string
  Description :: string
  Color :: int
  Timestamp :: string

record DiscordPayload =
  Embeds :: "DiscordEmbed list"

subsection \<open>Errors and printed lines\<close>

text \<open>
  One constructor for each \<^verbatim>\<open>fmt.Errorf\<close> of the source, carrying the arguments of its format
  string; \<open>Raw\<close> is a library error returned as it is (\<^verbatim>\<open>return err\<close> in \<^verbatim>\<open>sendDiscord\<close>).
\<close>

datatype error =
    Raw err
  | OpenConfig err
  | DecodeConfig err
  | AddressRequired
  | UnsealKeysRequired
  | WebhookURLRequired
  | DiscordStatus nat
  | CreateHealthRequest err
  | HealthCheckFailed err
  | ReadHealthResponse err
  | ParseHealthResponse err
  | CreateUnsealRequest nat err
  | UnsealRequestFailed nat err
  | ReadUnsealResponse nat err
  | ParseUnsealResponse nat err
  | StillSealed nat
  | AuditLogNotAccessible err
  | TailAuditLog err

text \<open>One constructor for each \<^verbatim>\<open>fmt.Print*\<close> of the source, with the format arguments.\<close>

datatype printed =
    WebhookFailedLine err
  | DiscordReturnedLine nat string
  | AlreadyUnsealedLine
  | SealedLine nat
  | UnsealedLine
  | ProgressLine int int
  | PrivilegedLine string string
  | UnsealDetectedLine
  | WardenActiveLine
  | ReadErrorLine err
  | ShuttingDownLine
  | UsageLines
  | ConfigErrorLine error
  | UnknownCommandLine string
  | ErrorLine error

subsection \<open>The outside world\<close>

text \<open>
  \<^verbatim>\<open>io.ReadAll\<close> returns the bytes read and an error or nil; an HTTP call returns an error, or
  a response with a status code and a body.
\<close>

datatype body = Body string "err option"

datatype reply = Failed err | Resp nat body

text \<open>
  A request built by \<^verbatim>\<open>http.NewRequest\<close>: method, URL, and the JSON object of the body
  (\<^verbatim>\<open>map[string]string{"key": key}\<close>, kept as its key/value pairs; \<^verbatim>\<open>json.Marshal\<close> has no
  error case on a map of strings or on a struct of strings and an int).
\<close>

datatype request = Request string string "(string \<times> string) list option"

text \<open>What the configuration file gives: \<^verbatim>\<open>os.Open\<close> fails, the YAML decoder fails, or a struct.\<close>

datatype config_source = OpenFails err | DecodeFails err | Decodes VaultConfig

text \<open>
  The library calls and the peers, as functions the program reads. The \<open>n\<close>-th call of
  \<^verbatim>\<open>client.Do\<close> (counting from 0) on request \<open>r\<close> is answered by \<open>vaultDo n r\<close>; the \<open>n\<close>-th
  webhook post by \<open>webhookPost n url payload\<close>, and \<^verbatim>\<open>time.Now()\<close> reads \<open>now n\<close> there.
\<close>

record env =
  configFile :: "string \<Rightarrow> config_source"
  newRequest :: "string \<Rightarrow> string \<Rightarrow> err option"
  vaultDo :: "nat \<Rightarrow> request \<Rightarrow> reply"
  unmarshalStatus :: "string \<Rightarrow> err + VaultStatus"
  webhookPost :: "nat \<Rightarrow> string \<Rightarrow> DiscordPayload \<Rightarrow> reply"
  now :: "nat \<Rightarrow> string"
  unmarshalEntry :: "string \<Rightarrow> err + AuditEntry"
  statFile :: "string \<Rightarrow> err option"
  tailFile :: "string \<Rightarrow> err option"

text \<open>What the program has done so far.\<close>

record state =
  stdout :: "printed list"
  requests :: "request list"
  posts :: "(string \<times> DiscordPayload) list"

definition println :: "printed \<Rightarrow> state \<Rightarrow> state" where
  "println l s = s\<lparr>stdout := stdout s @ [l]\<rparr>"

subsection \<open>Helper functions\<close>

definition readConfig :: "env \<Rightarrow> string \<Rightarrow> error + VaultConfig" where
  "readConfig e path =
     (case configFile e path of
        OpenFails x \<Rightarrow> Inl (OpenConfig x)
      | DecodeFails x \<Rightarrow> Inl (DecodeConfig x)
      | Decodes cfg \<Rightarrow>
          if Address cfg = [] then Inl AddressRequired
          else if length (UnsealKeys cfg) = 0 then Inl UnsealKeysRequired
          else if WebhookURL cfg = [] then Inl WebhookURLRequired
          else Inr cfg)"

definition mkPayload :: "string \<Rightarrow> string \<Rightarrow> int \<Rightarrow> string \<Rightarrow> DiscordPayload" where
  "mkPayload title desc color ts =
     \<lparr>Embeds = [\<lparr>Title = title, Description = desc, Color = color, Timestamp = ts\<rparr>]\<rparr>"

text \<open>
  \<^verbatim>\<open>sendDiscord\<close>: the payload is built with the time of the call and posted (the post is
  logged, delivered or not); a transport failure or a status other than 204 and 200 prints a
  warning and returns an error. \<^verbatim>\<open>json.Marshal\<close> of the payload has no error case.
\<close>

definition sendDiscord ::
  "env \<Rightarrow> string \<Rightarrow> string \<Rightarrow> string \<Rightarrow> int \<Rightarrow> state \<Rightarrow> error option \<times> state" where
  "sendDiscord e url title desc color s =
     (let payload = mkPayload title desc color (now e (length (posts s)));
          s1 = s\<lparr>posts := posts s @ [(url, payload)]\<rparr>
      in case webhookPost e (length (posts s)) url payload of
           Failed x \<Rightarrow> (Some (Raw x), println (WebhookFailedLine x) s1)
         | Resp code b \<Rightarrow>
             if code \<noteq> 204 \<and> code \<noteq> 200
             then (case b of Body bytes _ \<Rightarrow>
                     (Some (DiscordStatus code), println (DiscordReturnedLine code bytes) s1))
             else (None, s1))"

subsection \<open>Command: audit\<close>

text \<open>\<^verbatim>\<open>strings.Contains\<close>: some suffix of \<open>s\<close> starts with \<open>sub\<close>.\<close>

fun Contains :: "string \<Rightarrow> string \<Rightarrow> bool" where
  "Contains [] sub = (sub = [])"
| "Contains (c # s) sub = (prefix sub (c # s) \<or> Contains s sub)"

definition titleAlert :: string where
  "titleAlert = [CHR 0xF0, CHR 0x9F, CHR 0x9A, CHR 0xA8] @ '' SECURITY ALERT: Privileged Access''"

definition titleUnsealed :: string where
  "titleUnsealed = [CHR 0xF0, CHR 0x9F, CHR 0x94, CHR 0x93] @ '' Vault Unsealed''"

definition descUnsealed :: string where
  "descUnsealed = ''Vault has been successfully unsealed.''"

definition titleActive :: string where
  "titleActive =
     [CHR 0xF0, CHR 0x9F, CHR 0x9B, CHR 0xA1, CHR 0xEF, CHR 0xB8, CHR 0x8F] @ '' Vault Warden Active''"

definition titleStopped :: string where
  "titleStopped = [CHR 0xF0, CHR 0x9F, CHR 0x9B, CHR 0x91] @ '' Vault Warden Stopped''"

text \<open>\<^verbatim>\<open>fmt.Sprintf("**User:** %s\n**Resource:** `%s`", name, path)\<close>\<close>

definition alertDesc :: "string \<Rightarrow> string \<Rightarrow> string" where
  "alertDesc name path = ''**User:** '' @ name @ [CHR 0x0A] @ ''**Resource:** `'' @ path @ ''`''"

definition processAuditLine :: "env \<Rightarrow> string \<Rightarrow> string \<Rightarrow> state \<Rightarrow> state" where
  "processAuditLine e line webhookURL s =
     (case unmarshalEntry e line of
        Inl _ \<Rightarrow> s
      | Inr entry \<Rightarrow>
          (let s1 =
                 (if Contains (Request_Path entry) ''sign/root''
                     \<or> Contains (Request_Path entry) ''database/creds/admin''
                  then println (PrivilegedLine (Auth_DisplayName entry) (Request_Path entry))
                         (snd (sendDiscord e webhookURL titleAlert
                                 (alertDesc (Auth_DisplayName entry) (Request_Path entry))
                                 0xe74c3c s))
                  else s)
           in if Contains (Request_Path entry) ''sys/unseal'' \<and> Error entry = []
              then println UnsealDetectedLine
                     (snd (sendDiscord e webhookURL titleUnsealed descUnsealed 0x2ecc71 s1))
              else s1))"

text \<open>
  What the two channels of the \<^verbatim>\<open>select\<close> deliver: a line of the tail (text and error), the
  tail's channel closed (the receive gives a nil line), or a signal.
\<close>

datatype event = Line string "err option" | LinesClosed | Signal

text \<open>
  The result of a call that may not come back: the loop of \<^verbatim>\<open>runAudit\<close> blocks in its
  \<^verbatim>\<open>select\<close> when no event is left, and panics on the nil line of a closed channel.
\<close>

datatype 'a run = Returned 'a | Blocked | Panicked

fun auditLoop :: "env \<Rightarrow> VaultConfig \<Rightarrow> event list \<Rightarrow> state \<Rightarrow> error option run \<times> state" where
  "auditLoop e cfg [] s = (Blocked, s)"
| "auditLoop e cfg (Line text (Some x) # evs) s =
     auditLoop e cfg evs (println (ReadErrorLine x) s)"
| "auditLoop e cfg (Line text None # evs) s =
     auditLoop e cfg evs (processAuditLine e text (WebhookURL cfg) s)"
| "auditLoop e cfg (LinesClosed # evs) s = (Panicked, s)"
| "auditLoop e cfg (Signal # evs) s =
     (Returned None,
      snd (sendDiscord e (WebhookURL cfg) titleStopped ''Audit monitoring has been stopped.''
             0x95a5a6 (println ShuttingDownLine s)))"

definition runAudit :: "env \<Rightarrow> VaultConfig \<Rightarrow> event list \<Rightarrow> state \<Rightarrow> error option run \<times> state" where
  "runAudit e cfg evs s =
     (let s1 = snd (sendDiscord e (WebhookURL cfg) titleActive
                      ''Monitoring audit logs for Starnix cluster...'' 0x3498db
                      (println WardenActiveLine s))
      in case statFile e (AuditLog cfg) of
           Some x \<Rightarrow> (Returned (Some (AuditLogNotAccessible x)), s1)
         | None \<Rightarrow>
             (case tailFile e (AuditLog cfg) of
                Some x \<Rightarrow> (Returned (Some (TailAuditLog x)), s1)
              | None \<Rightarrow> auditLoop e cfg evs s1))"

subsection \<open>Command: unlock\<close>

definition healthRequest :: "VaultConfig \<Rightarrow> request" where
  "healthRequest cfg = Request ''GET'' (Address cfg @ ''/v1/sys/health'') None"

definition unsealRequest :: "VaultConfig \<Rightarrow> string \<Rightarrow> request" where
  "unsealRequest cfg key =
     Request ''PUT'' (Address cfg @ ''/v1/sys/unseal'') (Some [(''key'', key)])"

text \<open>
  The four steps \<^verbatim>\<open>http.NewRequest\<close>, \<^verbatim>\<open>client.Do\<close>, \<^verbatim>\<open>io.ReadAll\<close>, \<^verbatim>\<open>json.Unmarshal\<close> that
  \<^verbatim>\<open>runUnlock\<close> makes for the health check and for each key, with the step that failed. The
  HTTP status code is not looked at (the server answers 503 when sealed, 200 when unsealed).
  \<open>exchange e n r\<close> is the outcome when \<open>r\<close> is the request of the \<open>n\<close>-th call of
  \<^verbatim>\<open>client.Do\<close>.
\<close>

datatype exchange =
  CreateFailed err | DoFailed err | ReadFailed err | ParseFailed err | Status VaultStatus

definition exchange :: "env \<Rightarrow> nat \<Rightarrow> request \<Rightarrow> exchange" where
  "exchange e n r =
     (case r of Request method url b \<Rightarrow>
        (case newRequest e method url of
           Some x \<Rightarrow> CreateFailed x
         | None \<Rightarrow>
             (case vaultDo e n r of
                Failed x \<Rightarrow> DoFailed x
              | Resp code b \<Rightarrow>
                  (case b of
                     Body bytes (Some x) \<Rightarrow> ReadFailed x
                   | Body bytes None \<Rightarrow>
                       (case unmarshalStatus e bytes of
                          Inl x \<Rightarrow> ParseFailed x
                        | Inr st \<Rightarrow> Status st)))))"

text \<open>A request that was created has been handed to \<^verbatim>\<open>client.Do\<close>, and is logged.\<close>

definition roundTrip :: "env \<Rightarrow> request \<Rightarrow> state \<Rightarrow> exchange \<times> state" where
  "roundTrip e r s =
     (let ex = exchange e (length (requests s)) r
      in (ex, case ex of CreateFailed x \<Rightarrow> s | _ \<Rightarrow> s\<lparr>requests := requests s @ [r]\<rparr>))"

text \<open>
  The loop over \<^verbatim>\<open>cfg.UnsealKeys\<close>: \<open>i\<close> is the index of the first key left, \<open>keys\<close> the keys
  left.
\<close>

fun unsealLoop :: "env \<Rightarrow> VaultConfig \<Rightarrow> nat \<Rightarrow> string list \<Rightarrow> state \<Rightarrow> error option \<times> state" where
  "unsealLoop e cfg i [] s = (Some (StillSealed (length (UnsealKeys cfg))), s)"
| "unsealLoop e cfg i (key # keys) s =
     (let (ex, s1) = roundTrip e (unsealRequest cfg key) s
      in case ex of
           CreateFailed x \<Rightarrow> (Some (CreateUnsealRequest (i + 1) x), s1)
         | DoFailed x \<Rightarrow> (Some (UnsealRequestFailed (i + 1) x), s1)
         | ReadFailed x \<Rightarrow> (Some (ReadUnsealResponse (i + 1) x), s1)
         | ParseFailed x \<Rightarrow> (Some (ParseUnsealResponse (i + 1) x), s1)
         | Status unsealStatus \<Rightarrow>
             if \<not> Sealed unsealStatus
             then (None,
                   snd (sendDiscord e (WebhookURL cfg) titleUnsealed descUnsealed 0x2ecc71
                          (println UnsealedLine s1)))
             else unsealLoop e cfg (i + 1) keys
                    (println (ProgressLine (Progress unsealStatus) (Threshold unsealStatus)) s1))"

definition runUnlock :: "env \<Rightarrow> VaultConfig \<Rightarrow> state \<Rightarrow> error option \<times> state" where
  "runUnlock e cfg s =
     (let (ex, s1) = roundTrip e (healthRequest cfg) s
      in case ex of
           CreateFailed x \<Rightarrow> (Some (CreateHealthRequest x), s1)
         | DoFailed x \<Rightarrow> (Some (HealthCheckFailed x), s1)
         | ReadFailed x \<Rightarrow> (Some (ReadHealthResponse x), s1)
         | ParseFailed x \<Rightarrow> (Some (ParseHealthResponse x), s1)
         | Status status \<Rightarrow>
             if \<not> Sealed status
             then (None, println AlreadyUnsealedLine s1)
             else unsealLoop e cfg 0 (UnsealKeys cfg)
                    (println (SealedLine (length (UnsealKeys cfg))) s1))"

subsection \<open>Main entry point\<close>

text \<open>
  The end of \<^verbatim>\<open>main\<close>: a command that returned an error prints it and exits with status 1, a
  command that returned nil lets \<^verbatim>\<open>main\<close> return (status 0).
\<close>

fun finish :: "error option run \<times> state \<Rightarrow> nat run \<times> state" where
  "finish (Returned (Some x), s) = (Returned 1, println (ErrorLine x) s)"
| "finish (Returned None, s) = (Returned 0, s)"
| "finish (Blocked, s) = (Blocked, s)"
| "finish (Panicked, s) = (Panicked, s)"

text \<open>
  \<open>args\<close> is \<^verbatim>\<open>flag.Args()\<close>, \<open>configPath\<close> the value of the \<^verbatim>\<open>-config\<close> flag; the result is the
  exit status of the process.
\<close>

definition main :: "env \<Rightarrow> string \<Rightarrow> string list \<Rightarrow> event list \<Rightarrow> state \<Rightarrow> nat run \<times> state" where
  "main e configPath args evs s =
     (if length args < 1 then (Returned 1, println UsageLines s)
      else case readConfig e configPath of
             Inl x \<Rightarrow> (Returned 1, println (ConfigErrorLine x) s)
           | Inr cfg \<Rightarrow>
               if args ! 0 = ''unlock''
               then finish (case runUnlock e cfg s of (r, s1) \<Rightarrow> (Returned r, s1))
               else if args ! 0 = ''audit''
               then finish (runAudit e cfg evs s)
               else (Returned 1, println (UnknownCommandLine (args ! 0)) s))"

subsection \<open>Notification intents and their severity\<close>

text \<open>
  The posts made between two states, and the embeds they carry: these are the notification
  intents of the run from \<open>s\<close> to \<open>s'\<close>.
\<close>

definition intents :: "state \<Rightarrow> state \<Rightarrow> DiscordEmbed list" where
  "intents s s' = concat (map (\<lambda>p. Embeds (snd p)) (drop (length (posts s)) (posts s')))"

text \<open>
  The source has no severity field: a notification carries its severity as the colour of its
  embed. The privileged-access alert is red (\<open>0xe74c3c\<close>), read as Critical; the "unsealed"
  (green, \<open>0x2ecc71\<close>), "active" (blue, \<open>0x3498db\<close>) and "stopped" (grey, \<open>0x95a5a6\<close>)
  notifications are read as Info. The source sends no other colour.
\<close>

datatype severity = Info | Warning | Critical

definition severityOfColor :: "int \<Rightarrow> severity option" where
  "severityOfColor c =
     (if c = 0xe74c3c then Some Critical
      else if c = 0x2ecc71 \<or> c = 0x3498db \<or> c = 0x95a5a6 then Some Info
      else None)"

definition embed :: "string \<Rightarrow> string \<Rightarrow> int \<Rightarrow> string \<Rightarrow> DiscordEmbed" where
  "embed title desc color ts = \<lparr>Title = title, Description = desc, Color = color, Timestamp = ts\<rparr>"

text \<open>The warnings \<^verbatim>\<open>sendDiscord\<close> prints when delivery fails, and a state without them.\<close>

fun isWarning :: "printed \<Rightarrow> bool" where
  "isWarning (WebhookFailedLine x) = True"
| "isWarning (DiscordReturnedLine code b) = True"
| "isWarning l = False"

definition quiet :: "state \<Rightarrow> state" where
  "quiet s = s\<lparr>stdout := filter (\<lambda>l. \<not> isWarning l) (stdout s)\<rparr>"

subsection \<open>A concrete environment\<close>

text \<open>
  A server that is sealed and unseals at the second key, a webhook that answers 204, and
  decoders given as tables: they decode the few JSON texts used below as \<^verbatim>\<open>json.Unmarshal\<close>
  does and reject everything else.
\<close>

definition sealedBody :: string where
  \<open>sealedBody = ''{"sealed":true,"initialized":true,"progress":1,"t":2}''\<close>

definition unsealedBody :: string where
  \<open>unsealedBody = ''{"sealed":false,"initialized":true,"progress":0,"t":2}''\<close>

definition sealedStatus :: VaultStatus where
  "sealedStatus = \<lparr>Sealed = True, Initialized = True, Progress = 1, Threshold = 2\<rparr>"

definition unsealedStatus :: VaultStatus where
  "unsealedStatus = \<lparr>Sealed = False, Initialized = True, Progress = 0, Threshold = 2\<rparr>"

definition exampleCfg :: VaultConfig where
  "exampleCfg = \<lparr>Address = ''http://127.0.0.1:8200'', UnsealKeys = [''k1'', ''k2'', ''k3''],
     WebhookURL = ''https://discord.test/hook'', AuditLog = ''/var/log/vault_audit.log''\<rparr>"

definition lineRoot :: string where
  \<open>lineRoot =
     ''{"request":{"path":"ssh/sign/root"},"auth":{"display_name":"alice"},"error":""}''\<close>

definition lineUnseal :: string where
  \<open>lineUnseal =
     ''{"request":{"path":"sys/unseal"},"auth":{"display_name":"bob"},"error":""}''\<close>

definition lineDenied :: string where
  \<open>lineDenied =
     ''{"request":{"path":"sys/unseal"},"auth":{"display_name":"bob"},"error":"denied"}''\<close>

definition lineBoth :: string where
  \<open>lineBoth =
     ''{"request":{"path":"database/creds/admin/sys/unseal/sign/root"},"auth":{"display_name":"eve"}}''\<close>

definition exampleEntries :: "(string \<times> AuditEntry) list" where
  "exampleEntries =
     [(lineRoot,
         \<lparr>Request_Path = ''ssh/sign/root'', Auth_DisplayName = ''alice'', Error = []\<rparr>),
      (lineUnseal,
         \<lparr>Request_Path = ''sys/unseal'', Auth_DisplayName = ''bob'', Error = []\<rparr>),
      (lineDenied,
         \<lparr>Request_Path = ''sys/unseal'', Auth_DisplayName = ''bob'', Error = ''denied''\<rparr>),
      (lineBoth,
         \<lparr>Request_Path = ''database/creds/admin/sys/unseal/sign/root'', Auth_DisplayName = ''eve'',
          Error = []\<rparr>)]"

definition exampleEnv :: env where
  "exampleEnv =
     \<lparr>configFile = (\<lambda>p. Decodes exampleCfg),
      newRequest = (\<lambda>m u. None),
      vaultDo = (\<lambda>n r. if n = 2 then Resp 200 (Body unsealedBody None)
                         else Resp 503 (Body sealedBody None)),
      unmarshalStatus = (\<lambda>b.
         if b = sealedBody then Inr sealedStatus
         else if b = unsealedBody then Inr unsealedStatus
         else Inl ''invalid character''),
      webhookPost = (\<lambda>n u p. Resp 204 (Body [] None)),
      now = (\<lambda>n. ''2026-01-01T00:00:00Z''),
      unmarshalEntry = (\<lambda>l. case map_of exampleEntries l of
                              None \<Rightarrow> Inl ''invalid character''
                            | Some entry \<Rightarrow> Inr entry),
      statFile = (\<lambda>p. None),
      tailFile = (\<lambda>p. None)\<rparr>"

definition s0 :: state where
  "s0 = \<lparr>stdout = [], requests = [], posts = []\<rparr>"

text \<open>
  A configuration file that names no audit log, on a machine where the empty path cannot
  be opened.
\<close>

definition noAuditLogCfg :: VaultConfig where
  "noAuditLogCfg = exampleCfg\<lparr>AuditLog := []\<rparr>"

definition noAuditLogEnv :: env where
  "noAuditLogEnv =
     exampleEnv\<lparr>configFile := (\<lambda>p. Decodes noAuditLogCfg),
                statFile := (\<lambda>p. if p = [] then Some ''no such file or directory'' else None)\<rparr>"

section \<open>Properties\<close>

subsection \<open>Basic facts about the logs\<close>

lemma Contains_sublist: "Contains s sub \<longleftrightarrow> sublist sub s"
  by (induction s) (simp_all add: sublist_Cons_right)

lemma posts_println [simp]: "posts (println l s) = posts s"
  and requests_println [simp]: "requests (println l s) = requests s"
  and stdout_println [simp]: "stdout (println l s) = stdout s @ [l]"
  by (simp_all add: println_def)

lemma posts_sendDiscord [simp]:
  "posts (snd (sendDiscord e url title desc color s)) =
     posts s @ [(url, mkPayload title desc color (now e (length (posts s))))]"
  by (simp add: sendDiscord_def Let_def split: reply.split body.split)

lemma requests_sendDiscord [simp]:
  "requests (snd (sendDiscord e url title desc color s)) = requests s"
  by (simp add: sendDiscord_def Let_def split: reply.split body.split)

lemma intents_same [simp]: "posts s' = posts s \<Longrightarrow> intents s s' = []"
  by (simp add: intents_def)

lemma intents_append [simp]:
  "posts s' = posts s @ ps \<Longrightarrow> intents s s' = concat (map (\<lambda>p. Embeds (snd p)) ps)"
  by (simp add: intents_def)

lemma Embeds_mkPayload [simp]: "Embeds (mkPayload t d c ts) = [embed t d c ts]"
  by (simp add: mkPayload_def embed_def)

lemma Color_embed [simp]: "Color (embed t d c ts) = c"
  and Title_embed [simp]: "Title (embed t d c ts) = t"
  and Description_embed [simp]: "Description (embed t d c ts) = d"
  and Timestamp_embed [simp]: "Timestamp (embed t d c ts) = ts"
  by (simp_all add: embed_def)

lemma severity_red [simp]: "severityOfColor 0xe74c3c = Some Critical"
  and severity_green [simp]: "severityOfColor 0x2ecc71 = Some Info"
  by (simp_all add: severityOfColor_def)

subsection \<open>The audit classifier\<close>

text \<open>
  The posts of \<^verbatim>\<open>processAuditLine\<close> on a line that parses: the alert if the path is a
  privileged one, then the "unsealed" notification if the path is the unseal path and the
  error is empty. The second post reads the clock after the first.
\<close>

lemma posts_processAuditLine:
  assumes "unmarshalEntry e line = Inr entry"
  shows "posts (processAuditLine e line url s) =
     posts s
     @ (if sublist ''sign/root'' (Request_Path entry)
           \<or> sublist ''database/creds/admin'' (Request_Path entry)
        then [(url, mkPayload titleAlert (alertDesc (Auth_DisplayName entry) (Request_Path entry))
                      0xe74c3c (now e (length (posts s))))]
        else [])
     @ (if sublist ''sys/unseal'' (Request_Path entry) \<and> Error entry = []
        then [(url, mkPayload titleUnsealed descUnsealed 0x2ecc71
                      (now e (length (posts s)
                         + (if sublist ''sign/root'' (Request_Path entry)
                               \<or> sublist ''database/creds/admin'' (Request_Path entry)
                            then 1 else 0))))]
        else [])"
  using assms by (simp add: processAuditLine_def Let_def Contains_sublist)

lemma intents_processAuditLine:
  assumes "unmarshalEntry e line = Inr entry"
  shows "intents s (processAuditLine e line url s) =
     (if sublist ''sign/root'' (Request_Path entry)
         \<or> sublist ''database/creds/admin'' (Request_Path entry)
      then [embed titleAlert (alertDesc (Auth_DisplayName entry) (Request_Path entry))
              0xe74c3c (now e (length (posts s)))]
      else [])
     @ (if sublist ''sys/unseal'' (Request_Path entry) \<and> Error entry = []
        then [embed titleUnsealed descUnsealed 0x2ecc71
                (now e (length (posts s)
                   + (if sublist ''sign/root'' (Request_Path entry)
                         \<or> sublist ''database/creds/admin'' (Request_Path entry)
                      then 1 else 0)))]
        else [])"
  by (simp add: posts_processAuditLine [OF assms])

lemma sublist_alertDesc:
  "sublist name (alertDesc name path)" "sublist path (alertDesc name path)"
proof -
  show "sublist name (alertDesc name path)"
    unfolding alertDesc_def sublist_def by blast
  have "alertDesc name path
          = (''**User:** '' @ name @ [CHR 0x0A] @ ''**Resource:** `'') @ path @ ''`''"
    by (simp add: alertDesc_def)
  then show "sublist path (alertDesc name path)"
    unfolding sublist_def by blast
qed

lemma example_both:
  "unmarshalEntry exampleEnv lineBoth
     = Inr \<lparr>Request_Path = ''database/creds/admin/sys/unseal/sign/root'',
            Auth_DisplayName = ''eve'', Error = []\<rparr>"
  by (simp add: exampleEnv_def exampleEntries_def lineRoot_def lineUnseal_def lineDenied_def
        lineBoth_def)

lemma example_now [simp]: "now exampleEnv n = ''2026-01-01T00:00:00Z''"
  by (simp add: exampleEnv_def)

text \<open>
  C1. A record whose path contains \<open>sign/root\<close> or \<open>database/creds/admin\<close> gives exactly one
  Critical intent, whatever its other fields are (and whether it matches one substring or
  both): the alert, whose description contains the display name and the path as they are.
\<close>

theorem privileged_access_one_critical:
  assumes "unmarshalEntry e line = Inr entry"
    and "sublist ''sign/root'' (Request_Path entry)
         \<or> sublist ''database/creds/admin'' (Request_Path entry)"
  shows "filter (\<lambda>i. severityOfColor (Color i) = Some Critical)
           (intents s (processAuditLine e line url s))
         = [embed titleAlert (alertDesc (Auth_DisplayName entry) (Request_Path entry))
              0xe74c3c (now e (length (posts s)))]
       \<and> sublist (Auth_DisplayName entry)
           (alertDesc (Auth_DisplayName entry) (Request_Path entry))
       \<and> sublist (Request_Path entry)
           (alertDesc (Auth_DisplayName entry) (Request_Path entry))"
  using assms(2) by (simp add: intents_processAuditLine [OF assms(1)] sublist_alertDesc)

theorem privileged_access_one_critical_witness:
  "unmarshalEntry exampleEnv lineBoth
     = Inr \<lparr>Request_Path = ''database/creds/admin/sys/unseal/sign/root'',
            Auth_DisplayName = ''eve'', Error = []\<rparr>
   \<and> sublist ''sign/root'' ''database/creds/admin/sys/unseal/sign/root''
   \<and> sublist ''database/creds/admin'' ''database/creds/admin/sys/unseal/sign/root''
   \<and> filter (\<lambda>i. severityOfColor (Color i) = Some Critical)
        (intents s0 (processAuditLine exampleEnv lineBoth ''hook'' s0))
      = [embed titleAlert (alertDesc ''eve'' ''database/creds/admin/sys/unseal/sign/root'')
           0xe74c3c ''2026-01-01T00:00:00Z'']"
proof -
  have a: "sublist ''sign/root'' ''database/creds/admin/sys/unseal/sign/root''"
    by (simp add: Contains_sublist [symmetric])
  have b: "sublist ''database/creds/admin'' ''database/creds/admin/sys/unseal/sign/root''"
    by (simp add: Contains_sublist [symmetric])
  from privileged_access_one_critical [OF example_both, of s0 "''hook''"] a b
  show ?thesis
    by (simp add: example_both s0_def)
qed

lemma alertDesc_not_unsealed: "alertDesc name path \<noteq> ''Vault has been successfully unsealed.''"
  by (simp add: alertDesc_def)

lemma example_unseal:
  "unmarshalEntry exampleEnv lineUnseal
     = Inr \<lparr>Request_Path = ''sys/unseal'', Auth_DisplayName = ''bob'', Error = []\<rparr>"
  by (simp add: exampleEnv_def exampleEntries_def lineRoot_def lineUnseal_def lineDenied_def
        lineBoth_def)

lemma example_unseal_denied:
  "unmarshalEntry exampleEnv lineDenied
     = Inr \<lparr>Request_Path = ''sys/unseal'', Auth_DisplayName = ''bob'', Error = ''denied''\<rparr>"
  by (simp add: exampleEnv_def exampleEntries_def lineRoot_def lineUnseal_def lineDenied_def
        lineBoth_def)

text \<open>
  C2. A record whose path contains \<open>sys/unseal\<close>: with an empty error it gives one Info
  intent, with the fixed description; with an error it gives no Info intent and no intent of
  that description. The rules are not first-match: when the path is also a privileged one
  (and the error is empty) the record gives the alert and then the "unsealed" intent.
\<close>

theorem unseal_rule_info_intent:
  assumes "unmarshalEntry e line = Inr entry"
    and "sublist ''sys/unseal'' (Request_Path entry)"
  shows "(Error entry = [] \<longrightarrow>
            filter (\<lambda>i. severityOfColor (Color i) = Some Info)
              (intents s (processAuditLine e line url s))
            = [embed titleUnsealed ''Vault has been successfully unsealed.'' 0x2ecc71
                 (now e (length (posts s)
                    + (if sublist ''sign/root'' (Request_Path entry)
                          \<or> sublist ''database/creds/admin'' (Request_Path entry)
                       then 1 else 0)))])
       \<and> (Error entry \<noteq> [] \<longrightarrow>
            filter (\<lambda>i. severityOfColor (Color i) = Some Info)
              (intents s (processAuditLine e line url s)) = []
            \<and> (\<forall>i \<in> set (intents s (processAuditLine e line url s)).
                  Description i \<noteq> ''Vault has been successfully unsealed.''))
       \<and> (Error entry = []
            \<and> (sublist ''sign/root'' (Request_Path entry)
                \<or> sublist ''database/creds/admin'' (Request_Path entry)) \<longrightarrow>
            intents s (processAuditLine e line url s)
            = [embed titleAlert (alertDesc (Auth_DisplayName entry) (Request_Path entry))
                 0xe74c3c (now e (length (posts s))),
               embed titleUnsealed ''Vault has been successfully unsealed.'' 0x2ecc71
                 (now e (length (posts s) + 1))])"
  using assms(2)
  by (simp add: intents_processAuditLine [OF assms(1)] descUnsealed_def alertDesc_not_unsealed)

theorem unseal_rule_info_intent_witness:
  "sublist ''sys/unseal'' ''sys/unseal''
   \<and> sublist ''sys/unseal'' ''database/creds/admin/sys/unseal/sign/root''
   \<and> sublist ''sign/root'' ''database/creds/admin/sys/unseal/sign/root''
   \<and> filter (\<lambda>i. severityOfColor (Color i) = Some Info)
        (intents s0 (processAuditLine exampleEnv lineUnseal ''hook'' s0))
      = [embed titleUnsealed ''Vault has been successfully unsealed.'' 0x2ecc71
           ''2026-01-01T00:00:00Z'']
   \<and> intents s0 (processAuditLine exampleEnv lineDenied ''hook'' s0) = []
   \<and> intents s0 (processAuditLine exampleEnv lineBoth ''hook'' s0)
      = [embed titleAlert (alertDesc ''eve'' ''database/creds/admin/sys/unseal/sign/root'')
           0xe74c3c ''2026-01-01T00:00:00Z'',
         embed titleUnsealed ''Vault has been successfully unsealed.'' 0x2ecc71
           ''2026-01-01T00:00:00Z'']"
proof -
  have a: "sublist ''sys/unseal'' ''sys/unseal''"
    by simp
  have b: "sublist ''sys/unseal'' ''database/creds/admin/sys/unseal/sign/root''"
    by (simp add: Contains_sublist [symmetric])
  have c: "sublist ''sign/root'' ''database/creds/admin/sys/unseal/sign/root''"
    by (simp add: Contains_sublist [symmetric])
  have d: "\<not> sublist ''sign/root'' ''sys/unseal''"
    by (simp add: Contains_sublist [symmetric])
  have e: "\<not> sublist ''database/creds/admin'' ''sys/unseal''"
    by (simp add: Contains_sublist [symmetric])
  have denied: "intents s0 (processAuditLine exampleEnv lineDenied ''hook'' s0) = []"
    by (simp add: intents_processAuditLine [OF example_unseal_denied] d e)
  from unseal_rule_info_intent [OF example_unseal, of s0 "''hook''"]
    unseal_rule_info_intent [OF example_unseal_denied, of s0 "''hook''"]
    unseal_rule_info_intent [OF example_both, of s0 "''hook''"]
    a b c d e denied
  show ?thesis
    by (simp add: s0_def)
qed

subsection \<open>The unseal reconciler\<close>

lemma roundTrip_Status:
  "exchange e (length (requests s)) r = Status st \<Longrightarrow>
     roundTrip e r s = (Status st, s\<lparr>requests := requests s @ [r]\<rparr>)"
  by (simp add: roundTrip_def)

text \<open>
  While the submissions come back sealed the loop goes on: after \<open>k\<close> such submissions it is
  at key \<open>k\<close>, has sent the first \<open>k\<close> keys in order, and has posted nothing.
\<close>

lemma unsealLoop_sealed_prefix:
  assumes "k \<le> length keys"
    and "\<forall>j<k. \<exists>st. exchange e (length (requests s) + j) (unsealRequest cfg (keys ! j)) = Status st
                    \<and> Sealed st"
  shows "\<exists>s'. unsealLoop e cfg i keys s = unsealLoop e cfg (i + k) (drop k keys) s'
              \<and> requests s' = requests s @ map (unsealRequest cfg) (take k keys)
              \<and> posts s' = posts s"
  using assms
proof (induction k arbitrary: i keys s)
  case 0
  show ?case by (rule exI [of _ s]) simp
next
  case (Suc k)
  from Suc.prems(1) obtain key rest where keys: "keys = key # rest"
    by (cases keys) auto
  from Suc.prems(2) obtain st where
    st: "exchange e (length (requests s)) (unsealRequest cfg key) = Status st" "Sealed st"
    unfolding keys by fastforce
  define s1 where
    "s1 = println (ProgressLine (Progress st) (Threshold st))
            (s\<lparr>requests := requests s @ [unsealRequest cfg key]\<rparr>)"
  have step: "unsealLoop e cfg i keys s = unsealLoop e cfg (i + 1) rest s1"
    by (simp add: keys roundTrip_Status [OF st(1)] st(2) s1_def)
  have len: "k \<le> length rest"
    using Suc.prems(1) by (simp add: keys)
  have rest: "\<forall>j<k. \<exists>st. exchange e (length (requests s1) + j) (unsealRequest cfg (rest ! j))
                          = Status st \<and> Sealed st"
  proof (intro allI impI)
    fix j assume "j < k"
    then have "Suc j < Suc k" by simp
    with Suc.prems(2) have "\<exists>st. exchange e (length (requests s) + Suc j)
        (unsealRequest cfg (keys ! Suc j)) = Status st \<and> Sealed st"
      by blast
    then show "\<exists>st. exchange e (length (requests s1) + j) (unsealRequest cfg (rest ! j))
                 = Status st \<and> Sealed st"
      by (simp add: keys s1_def)
  qed
  from Suc.IH [OF len rest, of "i + 1"] obtain s' where
    s': "unsealLoop e cfg (i + 1) rest s1 = unsealLoop e cfg (i + 1 + k) (drop k rest) s'"
        "requests s' = requests s1 @ map (unsealRequest cfg) (take k rest)"
        "posts s' = posts s1"
    by blast
  show ?case
  proof (intro exI conjI)
    show "unsealLoop e cfg i keys s = unsealLoop e cfg (i + Suc k) (drop (Suc k) keys) s'"
      using step s'(1) by (simp add: keys)
    show "requests s' = requests s @ map (unsealRequest cfg) (take (Suc k) keys)"
      using s'(2) by (simp add: keys s1_def)
    show "posts s' = posts s"
      using s'(3) by (simp add: s1_def)
  qed
qed

text \<open>The same from the start of \<^verbatim>\<open>runUnlock\<close>, when the health check reports sealed.\<close>

lemma runUnlock_sealed_prefix:
  assumes "exchange e (length (requests s)) (healthRequest cfg) = Status st0"
    and "Sealed st0"
    and "k \<le> length (UnsealKeys cfg)"
    and "\<forall>j<k. \<exists>st. exchange e (length (requests s) + 1 + j)
                        (unsealRequest cfg (UnsealKeys cfg ! j)) = Status st \<and> Sealed st"
  shows "\<exists>s'. runUnlock e cfg s = unsealLoop e cfg k (drop k (UnsealKeys cfg)) s'
              \<and> requests s' = requests s @ healthRequest cfg
                                 # map (unsealRequest cfg) (take k (UnsealKeys cfg))
              \<and> posts s' = posts s"
proof -
  define s1 where
    "s1 = println (SealedLine (length (UnsealKeys cfg)))
            (s\<lparr>requests := requests s @ [healthRequest cfg]\<rparr>)"
  have start: "runUnlock e cfg s = unsealLoop e cfg 0 (UnsealKeys cfg) s1"
    by (simp add: runUnlock_def roundTrip_Status [OF assms(1)] assms(2) s1_def)
  have "\<forall>j<k. \<exists>st. exchange e (length (requests s1) + j)
                     (unsealRequest cfg (UnsealKeys cfg ! j)) = Status st \<and> Sealed st"
    using assms(4) by (simp add: s1_def add.commute add.left_commute)
  from unsealLoop_sealed_prefix [OF assms(3) this, of 0] obtain s' where
    "unsealLoop e cfg 0 (UnsealKeys cfg) s1 = unsealLoop e cfg (0 + k) (drop k (UnsealKeys cfg)) s'"
    "requests s' = requests s1 @ map (unsealRequest cfg) (take k (UnsealKeys cfg))"
    "posts s' = posts s1"
    by blast
  then show ?thesis
    using start by (intro exI [of _ s']) (simp add: s1_def)
qed

text \<open>
  The submission that decides the pass: the first \<open>i\<close> submissions came back sealed, and
  submission \<open>i\<close> gives \<open>ex\<close>. The loop is then at key \<open>i\<close> in a state that has sent the health
  request and the first \<open>i\<close> keys.
\<close>

lemma runUnlock_at_key:
  assumes "exchange e (length (requests s)) (healthRequest cfg) = Status st0"
    and "Sealed st0"
    and "i < length (UnsealKeys cfg)"
    and "\<forall>j<i. \<exists>st. exchange e (length (requests s) + 1 + j)
                        (unsealRequest cfg (UnsealKeys cfg ! j)) = Status st \<and> Sealed st"
  shows "\<exists>s'. runUnlock e cfg s
                = unsealLoop e cfg i (UnsealKeys cfg ! i # drop (Suc i) (UnsealKeys cfg)) s'
              \<and> length (requests s') = length (requests s) + 1 + i
              \<and> requests s' = requests s @ healthRequest cfg
                                 # map (unsealRequest cfg) (take i (UnsealKeys cfg))
              \<and> posts s' = posts s"
proof -
  from assms(3) have le: "i \<le> length (UnsealKeys cfg)"
    by simp
  from runUnlock_sealed_prefix [OF assms(1) assms(2) le assms(4)] obtain s' where
    s': "runUnlock e cfg s = unsealLoop e cfg i (drop i (UnsealKeys cfg)) s'"
        "requests s' = requests s @ healthRequest cfg
                         # map (unsealRequest cfg) (take i (UnsealKeys cfg))"
        "posts s' = posts s"
    by blast
  have "length (requests s') = length (requests s) + 1 + i"
    using assms(3) by (simp add: s'(2))
  then show ?thesis
    using s' assms(3) by (intro exI [of _ s']) (simp add: Cons_nth_drop_Suc)
qed

lemma runUnlock_unsealed_at:
  assumes "exchange e (length (requests s)) (healthRequest cfg) = Status st0"
    and "Sealed st0"
    and "i < length (UnsealKeys cfg)"
    and "\<forall>j<i. \<exists>st. exchange e (length (requests s) + 1 + j)
                        (unsealRequest cfg (UnsealKeys cfg ! j)) = Status st \<and> Sealed st"
    and "exchange e (length (requests s) + 1 + i) (unsealRequest cfg (UnsealKeys cfg ! i))
           = Status sti"
    and "\<not> Sealed sti"
  shows "fst (runUnlock e cfg s) = None
       \<and> requests (snd (runUnlock e cfg s))
         = requests s @ healthRequest cfg
             # map (unsealRequest cfg) (take (Suc i) (UnsealKeys cfg))
       \<and> posts (snd (runUnlock e cfg s))
         = posts s @ [(WebhookURL cfg,
                       mkPayload titleUnsealed descUnsealed 0x2ecc71
                         (now e (length (posts s))))]"
proof -
  from runUnlock_at_key [OF assms(1-4)] obtain s' where
    s': "runUnlock e cfg s
           = unsealLoop e cfg i (UnsealKeys cfg ! i # drop (Suc i) (UnsealKeys cfg)) s'"
        "length (requests s') = length (requests s) + 1 + i"
        "requests s' = requests s @ healthRequest cfg
                         # map (unsealRequest cfg) (take i (UnsealKeys cfg))"
        "posts s' = posts s"
    by blast
  have ex: "exchange e (length (requests s')) (unsealRequest cfg (UnsealKeys cfg ! i))
              = Status sti"
    using assms(5) by (simp add: s'(2))
  show ?thesis
    using assms(3) assms(6)
    by (simp add: s'(1) roundTrip_Status [OF ex] s'(3) s'(4) take_Suc_conv_app_nth)
qed

lemma runUnlock_exhausted:
  assumes "exchange e (length (requests s)) (healthRequest cfg) = Status st0"
    and "Sealed st0"
    and "\<forall>j<length (UnsealKeys cfg).
           \<exists>st. exchange e (length (requests s) + 1 + j)
                  (unsealRequest cfg (UnsealKeys cfg ! j)) = Status st \<and> Sealed st"
  shows "fst (runUnlock e cfg s) = Some (StillSealed (length (UnsealKeys cfg)))
       \<and> requests (snd (runUnlock e cfg s))
         = requests s @ healthRequest cfg # map (unsealRequest cfg) (UnsealKeys cfg)
       \<and> posts (snd (runUnlock e cfg s)) = posts s"
proof -
  from runUnlock_sealed_prefix [OF assms(1) assms(2) order_refl assms(3)] obtain s' where
    "runUnlock e cfg s
       = unsealLoop e cfg (length (UnsealKeys cfg))
           (drop (length (UnsealKeys cfg)) (UnsealKeys cfg)) s'"
    "requests s' = requests s @ healthRequest cfg
                     # map (unsealRequest cfg) (take (length (UnsealKeys cfg)) (UnsealKeys cfg))"
    "posts s' = posts s"
    by blast
  then show ?thesis
    by simp
qed

lemma runUnlock_already_unsealed:
  assumes "exchange e (length (requests s)) (healthRequest cfg) = Status st0"
    and "\<not> Sealed st0"
  shows "runUnlock e cfg s
         = (None, println AlreadyUnsealedLine (s\<lparr>requests := requests s @ [healthRequest cfg]\<rparr>))"
  by (simp add: runUnlock_def roundTrip_Status [OF assms(1)] assms(2))

lemma runUnlock_failed_at:
  assumes "exchange e (length (requests s)) (healthRequest cfg) = Status st0"
    and "Sealed st0"
    and "i < length (UnsealKeys cfg)"
    and "\<forall>j<i. \<exists>st. exchange e (length (requests s) + 1 + j)
                        (unsealRequest cfg (UnsealKeys cfg ! j)) = Status st \<and> Sealed st"
    and "exchange e (length (requests s) + 1 + i) (unsealRequest cfg (UnsealKeys cfg ! i)) = ex"
    and "ex = DoFailed x \<or> ex = ReadFailed x \<or> ex = ParseFailed x"
  shows "fst (runUnlock e cfg s)
         = Some (if ex = DoFailed x then UnsealRequestFailed (Suc i) x
                 else if ex = ReadFailed x then ReadUnsealResponse (Suc i) x
                 else ParseUnsealResponse (Suc i) x)
       \<and> requests (snd (runUnlock e cfg s))
         = requests s @ healthRequest cfg
             # map (unsealRequest cfg) (take (Suc i) (UnsealKeys cfg))
       \<and> posts (snd (runUnlock e cfg s)) = posts s"
proof -
  from runUnlock_at_key [OF assms(1-4)] obtain s' where
    s': "runUnlock e cfg s
           = unsealLoop e cfg i (UnsealKeys cfg ! i # drop (Suc i) (UnsealKeys cfg)) s'"
        "length (requests s') = length (requests s) + 1 + i"
        "requests s' = requests s @ healthRequest cfg
                         # map (unsealRequest cfg) (take i (UnsealKeys cfg))"
        "posts s' = posts s"
    by blast
  have ex: "exchange e (length (requests s')) (unsealRequest cfg (UnsealKeys cfg ! i)) = ex"
    using assms(5) by (simp add: s'(2))
  have rt: "roundTrip e (unsealRequest cfg (UnsealKeys cfg ! i)) s'
              = (ex, s'\<lparr>requests := requests s' @ [unsealRequest cfg (UnsealKeys cfg ! i)]\<rparr>)"
    using assms(6) by (auto simp add: roundTrip_def ex)
  from assms(6) show ?thesis
    using assms(3)
    by (auto simp add: s'(1) rt s'(3) s'(4) take_Suc_conv_app_nth)
qed

text \<open>The exchanges of the concrete environment, whatever the server is made to answer.\<close>

lemma exchange_example:
  "exchange (exampleEnv\<lparr>vaultDo := f\<rparr>) n (Request m u b) =
     (case f n (Request m u b) of
        Failed x \<Rightarrow> DoFailed x
      | Resp code (Body bytes (Some x)) \<Rightarrow> ReadFailed x
      | Resp code (Body bytes None) \<Rightarrow>
          if bytes = sealedBody then Status sealedStatus
          else if bytes = unsealedBody then Status unsealedStatus
          else ParseFailed ''invalid character'')"
  by (simp add: exchange_def exampleEnv_def split: reply.split body.split option.split)

lemma exchange_exampleEnv:
  "exchange exampleEnv n (Request m u b) =
     (if n = 2 then Status unsealedStatus else Status sealedStatus)"
  by (simp add: exchange_def exampleEnv_def sealedBody_def unsealedBody_def)

lemma Sealed_example [simp]: "Sealed sealedStatus" "\<not> Sealed unsealedStatus"
  by (simp_all add: sealedStatus_def unsealedStatus_def)

lemma bodies_differ [simp]: "sealedBody \<noteq> unsealedBody" "unsealedBody \<noteq> sealedBody"
  by (simp_all add: sealedBody_def unsealedBody_def)

lemma example_keys [simp]: "UnsealKeys exampleCfg = [''k1'', ''k2'', ''k3'']"
  and example_hook [simp]: "WebhookURL exampleCfg = ''https://discord.test/hook''"
  by (simp_all add: exampleCfg_def)

lemma s0_logs [simp]: "requests s0 = []" "posts s0 = []" "stdout s0 = []"
  by (simp_all add: s0_def)

text \<open>The two requests of \<^verbatim>\<open>runUnlock\<close>, written out.\<close>

lemma healthRequest_explicit:
  "healthRequest cfg = Request ''GET'' (Address cfg @ ''/v1/sys/health'') None"
  by (simp add: healthRequest_def)

lemma unsealRequest_explicit:
  "unsealRequest cfg = (\<lambda>key. Request ''PUT'' (Address cfg @ ''/v1/sys/unseal'')
                                 (Some [(''key'', key)]))"
  by (rule ext) (simp add: unsealRequest_def)

text \<open>
  C3. The health check reports sealed, the first \<open>i\<close> submissions come back sealed and
  submission \<open>i\<close> comes back unsealed: the reconciler returns nil; after the health check
  (\<^verbatim>\<open>GET\<close> on \<^verbatim>\<open>/v1/sys/health\<close>) it has made one \<^verbatim>\<open>PUT\<close> on \<^verbatim>\<open>/v1/sys/unseal\<close> for each of the
  keys \<open>0..i\<close>, each carrying its own key, in the order of the configuration, and no other
  request; and it has posted the one "unsealed" notification.
\<close>

theorem unseal_stops_at_first_unsealed:
  assumes "exchange e (length (requests s))
             (Request ''GET'' (Address cfg @ ''/v1/sys/health'') None) = Status st0"
    and "Sealed st0"
    and "i < length (UnsealKeys cfg)"
    and "\<forall>j<i. \<exists>st. exchange e (length (requests s) + 1 + j)
                        (Request ''PUT'' (Address cfg @ ''/v1/sys/unseal'')
                           (Some [(''key'', UnsealKeys cfg ! j)])) = Status st
                      \<and> Sealed st"
    and "exchange e (length (requests s) + 1 + i)
           (Request ''PUT'' (Address cfg @ ''/v1/sys/unseal'')
              (Some [(''key'', UnsealKeys cfg ! i)])) = Status sti"
    and "\<not> Sealed sti"
  shows "fst (runUnlock e cfg s) = None
       \<and> requests (snd (runUnlock e cfg s))
         = requests s
           @ Request ''GET'' (Address cfg @ ''/v1/sys/health'') None
           # map (\<lambda>key. Request ''PUT'' (Address cfg @ ''/v1/sys/unseal'')
                           (Some [(''key'', key)]))
               (take (Suc i) (UnsealKeys cfg))
       \<and> posts (snd (runUnlock e cfg s))
         = posts s @ [(WebhookURL cfg,
                       mkPayload titleUnsealed descUnsealed 0x2ecc71
                         (now e (length (posts s))))]"
proof -
  have h: "exchange e (length (requests s)) (healthRequest cfg) = Status st0"
    using assms(1) by (simp add: healthRequest_explicit)
  have p: "\<forall>j<i. \<exists>st. exchange e (length (requests s) + 1 + j)
                          (unsealRequest cfg (UnsealKeys cfg ! j)) = Status st \<and> Sealed st"
    using assms(4) by (simp add: unsealRequest_explicit)
  have u: "exchange e (length (requests s) + 1 + i) (unsealRequest cfg (UnsealKeys cfg ! i))
             = Status sti"
    using assms(5) by (simp add: unsealRequest_explicit)
  from runUnlock_unsealed_at [OF h assms(2) assms(3) p u assms(6)]
  show ?thesis
    by (simp add: healthRequest_explicit unsealRequest_explicit)
qed

text \<open>
  Three keys, the second submission unseals: the keys \<open>k1\<close> and \<open>k2\<close> are sent, in this
  order, \<open>k3\<close> is not, and there is one notification.
\<close>

theorem unseal_stops_at_first_unsealed_witness:
  "exchange exampleEnv 0 (Request ''GET'' ''http://127.0.0.1:8200/v1/sys/health'' None)
     = Status sealedStatus
   \<and> exchange exampleEnv 1
       (Request ''PUT'' ''http://127.0.0.1:8200/v1/sys/unseal'' (Some [(''key'', ''k1'')]))
     = Status sealedStatus
   \<and> exchange exampleEnv 2
       (Request ''PUT'' ''http://127.0.0.1:8200/v1/sys/unseal'' (Some [(''key'', ''k2'')]))
     = Status unsealedStatus
   \<and> UnsealKeys exampleCfg = [''k1'', ''k2'', ''k3'']
   \<and> fst (runUnlock exampleEnv exampleCfg s0) = None
   \<and> requests (snd (runUnlock exampleEnv exampleCfg s0))
     = [Request ''GET'' ''http://127.0.0.1:8200/v1/sys/health'' None,
        Request ''PUT'' ''http://127.0.0.1:8200/v1/sys/unseal'' (Some [(''key'', ''k1'')]),
        Request ''PUT'' ''http://127.0.0.1:8200/v1/sys/unseal'' (Some [(''key'', ''k2'')])]
   \<and> posts (snd (runUnlock exampleEnv exampleCfg s0))
     = [(''https://discord.test/hook'',
         mkPayload titleUnsealed descUnsealed 0x2ecc71 ''2026-01-01T00:00:00Z'')]"
proof -
  have a: "Address exampleCfg = ''http://127.0.0.1:8200''"
    by (simp add: exampleCfg_def)
  have h: "exchange exampleEnv (length (requests s0))
             (Request ''GET'' (Address exampleCfg @ ''/v1/sys/health'') None)
           = Status sealedStatus"
    by (simp add: exchange_exampleEnv)
  have i: "1 < length (UnsealKeys exampleCfg)"
    by simp
  have p: "\<forall>j<1. \<exists>st. exchange exampleEnv (length (requests s0) + 1 + j)
                          (Request ''PUT'' (Address exampleCfg @ ''/v1/sys/unseal'')
                             (Some [(''key'', UnsealKeys exampleCfg ! j)])) = Status st
                        \<and> Sealed st"
    by (simp add: exchange_exampleEnv)
  have u: "exchange exampleEnv (length (requests s0) + 1 + 1)
             (Request ''PUT'' (Address exampleCfg @ ''/v1/sys/unseal'')
                (Some [(''key'', UnsealKeys exampleCfg ! 1)])) = Status unsealedStatus"
    by (simp add: exchange_exampleEnv)
  from unseal_stops_at_first_unsealed [OF h _ i p u]
  show ?thesis
    by (simp add: a exchange_exampleEnv)
qed

text \<open>
  C4. The health check reports sealed and every submission comes back sealed: after the
  health check the reconciler has made one \<^verbatim>\<open>PUT\<close> on \<^verbatim>\<open>/v1/sys/unseal\<close> for every configured
  key, each carrying its own key, in the order of the configuration; it returns the error
  "still sealed after all N keys", with N the number of configured keys, and posts nothing.
\<close>

theorem all_keys_exhausted_still_sealed:
  assumes "exchange e (length (requests s))
             (Request ''GET'' (Address cfg @ ''/v1/sys/health'') None) = Status st0"
    and "Sealed st0"
    and "\<forall>j<length (UnsealKeys cfg).
           \<exists>st. exchange e (length (requests s) + 1 + j)
                  (Request ''PUT'' (Address cfg @ ''/v1/sys/unseal'')
                     (Some [(''key'', UnsealKeys cfg ! j)])) = Status st
                \<and> Sealed st"
  shows "fst (runUnlock e cfg s) = Some (StillSealed (length (UnsealKeys cfg)))
       \<and> requests (snd (runUnlock e cfg s))
         = requests s
           @ Request ''GET'' (Address cfg @ ''/v1/sys/health'') None
           # map (\<lambda>key. Request ''PUT'' (Address cfg @ ''/v1/sys/unseal'')
                           (Some [(''key'', key)]))
               (UnsealKeys cfg)
       \<and> posts (snd (runUnlock e cfg s)) = posts s"
proof -
  have h: "exchange e (length (requests s)) (healthRequest cfg) = Status st0"
    using assms(1) by (simp add: healthRequest_explicit)
  have p: "\<forall>j<length (UnsealKeys cfg).
             \<exists>st. exchange e (length (requests s) + 1 + j)
                    (unsealRequest cfg (UnsealKeys cfg ! j)) = Status st \<and> Sealed st"
    using assms(3) by (simp add: unsealRequest_explicit)
  from runUnlock_exhausted [OF h assms(2) p]
  show ?thesis
    by (simp add: healthRequest_explicit unsealRequest_explicit)
qed

text \<open>Three keys, the server stays sealed: \<open>k1\<close>, \<open>k2\<close>, \<open>k3\<close> are sent, in this order.\<close>

theorem all_keys_exhausted_still_sealed_witness:
  "(\<forall>n. exchange (exampleEnv\<lparr>vaultDo := \<lambda>n r. Resp 503 (Body sealedBody None)\<rparr>) n
          (Request ''GET'' ''http://127.0.0.1:8200/v1/sys/health'' None) = Status sealedStatus)
   \<and> (\<forall>n k. exchange (exampleEnv\<lparr>vaultDo := \<lambda>n r. Resp 503 (Body sealedBody None)\<rparr>) n
          (Request ''PUT'' ''http://127.0.0.1:8200/v1/sys/unseal'' (Some [(''key'', k)]))
        = Status sealedStatus)
   \<and> UnsealKeys exampleCfg = [''k1'', ''k2'', ''k3'']
   \<and> fst (runUnlock (exampleEnv\<lparr>vaultDo := \<lambda>n r. Resp 503 (Body sealedBody None)\<rparr>)
           exampleCfg s0) = Some (StillSealed 3)
   \<and> requests (snd (runUnlock (exampleEnv\<lparr>vaultDo := \<lambda>n r. Resp 503 (Body sealedBody None)\<rparr>)
                      exampleCfg s0))
     = [Request ''GET'' ''http://127.0.0.1:8200/v1/sys/health'' None,
        Request ''PUT'' ''http://127.0.0.1:8200/v1/sys/unseal'' (Some [(''key'', ''k1'')]),
        Request ''PUT'' ''http://127.0.0.1:8200/v1/sys/unseal'' (Some [(''key'', ''k2'')]),
        Request ''PUT'' ''http://127.0.0.1:8200/v1/sys/unseal'' (Some [(''key'', ''k3'')])]
   \<and> posts (snd (runUnlock (exampleEnv\<lparr>vaultDo := \<lambda>n r. Resp 503 (Body sealedBody None)\<rparr>)
                   exampleCfg s0)) = []"
proof -
  let ?e = "exampleEnv\<lparr>vaultDo := \<lambda>n r. Resp 503 (Body sealedBody None)\<rparr>"
  have a: "Address exampleCfg = ''http://127.0.0.1:8200''"
    by (simp add: exampleCfg_def)
  have h: "exchange ?e (length (requests s0))
             (Request ''GET'' (Address exampleCfg @ ''/v1/sys/health'') None)
           = Status sealedStatus"
    by (simp add: exchange_example)
  have p: "\<forall>j<length (UnsealKeys exampleCfg).
             \<exists>st. exchange ?e (length (requests s0) + 1 + j)
                    (Request ''PUT'' (Address exampleCfg @ ''/v1/sys/unseal'')
                       (Some [(''key'', UnsealKeys exampleCfg ! j)])) = Status st
                  \<and> Sealed st"
    by (simp add: exchange_example)
  from all_keys_exhausted_still_sealed [OF h _ p]
  show ?thesis
    by (simp add: a exchange_example)
qed

text \<open>
  C5. The health check reports unsealed: the reconciler sends no key (the health request is
  its only request), prints "already unsealed", posts nothing and returns nil.
\<close>

theorem already_unsealed_is_noop:
  assumes "exchange e (length (requests s)) (healthRequest cfg) = Status st0"
    and "\<not> Sealed st0"
  shows "fst (runUnlock e cfg s) = None
       \<and> requests (snd (runUnlock e cfg s)) = requests s @ [healthRequest cfg]
       \<and> stdout (snd (runUnlock e cfg s)) = stdout s @ [AlreadyUnsealedLine]
       \<and> posts (snd (runUnlock e cfg s)) = posts s"
  by (simp add: runUnlock_already_unsealed [OF assms])

theorem already_unsealed_is_noop_witness:
  "exchange (exampleEnv\<lparr>vaultDo := \<lambda>n r. Resp 200 (Body unsealedBody None)\<rparr>) 0
     (healthRequest exampleCfg) = Status unsealedStatus
   \<and> \<not> Sealed unsealedStatus
   \<and> fst (runUnlock (exampleEnv\<lparr>vaultDo := \<lambda>n r. Resp 200 (Body unsealedBody None)\<rparr>)
           exampleCfg s0) = None
   \<and> requests (snd (runUnlock (exampleEnv\<lparr>vaultDo := \<lambda>n r. Resp 200 (Body unsealedBody None)\<rparr>)
                      exampleCfg s0)) = [healthRequest exampleCfg]
   \<and> stdout (snd (runUnlock (exampleEnv\<lparr>vaultDo := \<lambda>n r. Resp 200 (Body unsealedBody None)\<rparr>)
                    exampleCfg s0)) = [AlreadyUnsealedLine]
   \<and> posts (snd (runUnlock (exampleEnv\<lparr>vaultDo := \<lambda>n r. Resp 200 (Body unsealedBody None)\<rparr>)
                   exampleCfg s0)) = []"
proof -
  let ?e = "exampleEnv\<lparr>vaultDo := \<lambda>n r. Resp 200 (Body unsealedBody None)\<rparr>"
  have h: "exchange ?e (length (requests s0)) (healthRequest exampleCfg)
             = Status unsealedStatus"
    by (simp add: healthRequest_def exchange_example)
  from already_unsealed_is_noop [OF h]
  show ?thesis
    by (simp add: healthRequest_def exchange_example)
qed

text \<open>
  C10. In a sealed pass, the first \<open>i\<close> submissions come back sealed and the round trip of
  submission \<open>i\<close> fails (in \<^verbatim>\<open>client.Do\<close>, in reading the body, or in parsing it): the
  reconciler returns that error, wrapped with the number of the key; the keys \<open>0..i\<close> have
  been sent and stay sent (no request follows the failed one), and nothing is posted.
\<close>

theorem submission_failure_returns_at_once:
  assumes "exchange e (length (requests s)) (healthRequest cfg) = Status st0"
    and "Sealed st0"
    and "i < length (UnsealKeys cfg)"
    and "\<forall>j<i. \<exists>st. exchange e (length (requests s) + 1 + j)
                        (unsealRequest cfg (UnsealKeys cfg ! j)) = Status st \<and> Sealed st"
    and "exchange e (length (requests s) + 1 + i) (unsealRequest cfg (UnsealKeys cfg ! i)) = ex"
    and "ex = DoFailed x \<or> ex = ReadFailed x \<or> ex = ParseFailed x"
  shows "fst (runUnlock e cfg s)
         = Some (if ex = DoFailed x then UnsealRequestFailed (Suc i) x
                 else if ex = ReadFailed x then ReadUnsealResponse (Suc i) x
                 else ParseUnsealResponse (Suc i) x)
       \<and> requests (snd (runUnlock e cfg s))
         = requests s @ healthRequest cfg
             # map (unsealRequest cfg) (take (Suc i) (UnsealKeys cfg))
       \<and> posts (snd (runUnlock e cfg s)) = posts s"
  using assms by (rule runUnlock_failed_at)

text \<open>Three keys, the second round trip fails in each of the three ways.\<close>

theorem submission_failure_returns_at_once_witness:
  "fst (runUnlock (exampleEnv\<lparr>vaultDo := \<lambda>n r. if n = 2 then Failed ''connection refused''
                                                 else Resp 503 (Body sealedBody None)\<rparr>)
          exampleCfg s0) = Some (UnsealRequestFailed 2 ''connection refused'')
   \<and> requests (snd (runUnlock
          (exampleEnv\<lparr>vaultDo := \<lambda>n r. if n = 2 then Failed ''connection refused''
                                          else Resp 503 (Body sealedBody None)\<rparr>)
          exampleCfg s0))
     = [healthRequest exampleCfg, unsealRequest exampleCfg ''k1'',
        unsealRequest exampleCfg ''k2'']
   \<and> posts (snd (runUnlock
          (exampleEnv\<lparr>vaultDo := \<lambda>n r. if n = 2 then Failed ''connection refused''
                                          else Resp 503 (Body sealedBody None)\<rparr>)
          exampleCfg s0)) = []
   \<and> fst (runUnlock
          (exampleEnv\<lparr>vaultDo := \<lambda>n r. if n = 2 then Resp 200 (Body [] (Some ''unexpected EOF''))
                                          else Resp 503 (Body sealedBody None)\<rparr>)
          exampleCfg s0) = Some (ReadUnsealResponse 2 ''unexpected EOF'')
   \<and> fst (runUnlock
          (exampleEnv\<lparr>vaultDo := \<lambda>n r. if n = 2 then Resp 502 (Body ''<html>'' None)
                                          else Resp 503 (Body sealedBody None)\<rparr>)
          exampleCfg s0) = Some (ParseUnsealResponse 2 ''invalid character'')"
proof -
  let ?sealed = "Resp 503 (Body sealedBody None)"
  let ?e1 = "exampleEnv\<lparr>vaultDo := \<lambda>n r. if n = 2 then Failed ''connection refused''
                                          else ?sealed\<rparr>"
  let ?e2 = "exampleEnv\<lparr>vaultDo := \<lambda>n r. if n = 2 then Resp 200 (Body [] (Some ''unexpected EOF''))
                                          else ?sealed\<rparr>"
  let ?e3 = "exampleEnv\<lparr>vaultDo := \<lambda>n r. if n = 2 then Resp 502 (Body ''<html>'' None)
                                          else ?sealed\<rparr>"
  have html: "''<html>'' \<noteq> sealedBody" "''<html>'' \<noteq> unsealedBody"
    by (simp_all add: sealedBody_def unsealedBody_def)
  have i: "1 < length (UnsealKeys exampleCfg)"
    by simp
  have h1: "exchange ?e1 (length (requests s0)) (healthRequest exampleCfg) = Status sealedStatus"
    by (simp add: healthRequest_def exchange_example)
  have p1: "\<forall>j<1. \<exists>st. exchange ?e1 (length (requests s0) + 1 + j)
                (unsealRequest exampleCfg (UnsealKeys exampleCfg ! j)) = Status st \<and> Sealed st"
    by (simp add: unsealRequest_def exchange_example)
  have f1: "exchange ?e1 (length (requests s0) + 1 + 1)
              (unsealRequest exampleCfg (UnsealKeys exampleCfg ! 1))
            = DoFailed ''connection refused''"
    by (simp add: unsealRequest_def exchange_example)
  have h2: "exchange ?e2 (length (requests s0)) (healthRequest exampleCfg) = Status sealedStatus"
    by (simp add: healthRequest_def exchange_example)
  have p2: "\<forall>j<1. \<exists>st. exchange ?e2 (length (requests s0) + 1 + j)
                (unsealRequest exampleCfg (UnsealKeys exampleCfg ! j)) = Status st \<and> Sealed st"
    by (simp add: unsealRequest_def exchange_example)
  have f2: "exchange ?e2 (length (requests s0) + 1 + 1)
              (unsealRequest exampleCfg (UnsealKeys exampleCfg ! 1))
            = ReadFailed ''unexpected EOF''"
    by (simp add: unsealRequest_def exchange_example)
  have h3: "exchange ?e3 (length (requests s0)) (healthRequest exampleCfg) = Status sealedStatus"
    by (simp add: healthRequest_def exchange_example)
  have p3: "\<forall>j<1. \<exists>st. exchange ?e3 (length (requests s0) + 1 + j)
                (unsealRequest exampleCfg (UnsealKeys exampleCfg ! j)) = Status st \<and> Sealed st"
    by (simp add: unsealRequest_def exchange_example)
  have f3: "exchange ?e3 (length (requests s0) + 1 + 1)
              (unsealRequest exampleCfg (UnsealKeys exampleCfg ! 1))
            = ParseFailed ''invalid character''"
    by (simp add: unsealRequest_def exchange_example html)
  from submission_failure_returns_at_once [OF h1 _ i p1 f1, of "''connection refused''"]
    submission_failure_returns_at_once [OF h2 _ i p2 f2, of "''unexpected EOF''"]
    submission_failure_returns_at_once [OF h3 _ i p3 f3, of "''invalid character''"]
  show ?thesis
    by simp
qed

subsection \<open>The severity of the reconciler's notification\<close>

lemma posts_unsealLoop:
  "posts (snd (unsealLoop e cfg i keys s)) = posts s
   \<or> posts (snd (unsealLoop e cfg i keys s))
     = posts s @ [(WebhookURL cfg,
                   mkPayload titleUnsealed descUnsealed 0x2ecc71 (now e (length (posts s))))]"
proof (induction keys arbitrary: i s)
  case Nil
  show ?case by simp
next
  case (Cons key keys)
  show ?case
  proof (cases "exchange e (length (requests s)) (unsealRequest cfg key)")
    case (Status st)
    show ?thesis
    proof (cases "Sealed st")
      case True
      define s1 where
        "s1 = println (ProgressLine (Progress st) (Threshold st))
                (s\<lparr>requests := requests s @ [unsealRequest cfg key]\<rparr>)"
      have "unsealLoop e cfg i (key # keys) s = unsealLoop e cfg (i + 1) keys s1"
        by (simp add: roundTrip_Status [OF Status] True s1_def)
      moreover have "posts s1 = posts s"
        by (simp add: s1_def)
      ultimately show ?thesis
        using Cons.IH [of "i + 1" s1] by simp
    next
      case False
      then show ?thesis
        by (simp add: roundTrip_Status [OF Status])
    qed
  qed (simp_all add: roundTrip_def)
qed

lemma posts_runUnlock:
  "posts (snd (runUnlock e cfg s)) = posts s
   \<or> posts (snd (runUnlock e cfg s))
     = posts s @ [(WebhookURL cfg,
                   mkPayload titleUnsealed descUnsealed 0x2ecc71 (now e (length (posts s))))]"
proof (cases "exchange e (length (requests s)) (healthRequest cfg)")
  case (Status st)
  show ?thesis
  proof (cases "Sealed st")
    case True
    define s1 where
      "s1 = println (SealedLine (length (UnsealKeys cfg)))
              (s\<lparr>requests := requests s @ [healthRequest cfg]\<rparr>)"
    have "runUnlock e cfg s = unsealLoop e cfg 0 (UnsealKeys cfg) s1"
      by (simp add: runUnlock_def roundTrip_Status [OF Status] True s1_def)
    moreover have "posts s1 = posts s"
      by (simp add: s1_def)
    ultimately show ?thesis
      using posts_unsealLoop [of e cfg 0 "UnsealKeys cfg" s1] by simp
  next
    case False
    then show ?thesis
      by (simp add: runUnlock_already_unsealed [OF Status])
  qed
qed (simp_all add: runUnlock_def roundTrip_def)

lemma example_run_posts:
  "posts (snd (runUnlock exampleEnv exampleCfg s0))
   = [(''https://discord.test/hook'',
       mkPayload titleUnsealed descUnsealed 0x2ecc71 ''2026-01-01T00:00:00Z'')]"
proof -
  have h: "exchange exampleEnv (length (requests s0)) (healthRequest exampleCfg)
             = Status sealedStatus"
    by (simp add: healthRequest_def exchange_exampleEnv)
  have i: "1 < length (UnsealKeys exampleCfg)"
    by simp
  have p: "\<forall>j<1. \<exists>st. exchange exampleEnv (length (requests s0) + 1 + j)
                          (unsealRequest exampleCfg (UnsealKeys exampleCfg ! j)) = Status st
                        \<and> Sealed st"
    by (simp add: unsealRequest_def exchange_exampleEnv)
  have u: "exchange exampleEnv (length (requests s0) + 1 + 1)
             (unsealRequest exampleCfg (UnsealKeys exampleCfg ! 1)) = Status unsealedStatus"
    by (simp add: unsealRequest_def exchange_exampleEnv)
  from runUnlock_unsealed_at [OF h _ i p u]
  show ?thesis
    by simp
qed

lemma example_run_intents:
  "intents s0 (snd (runUnlock exampleEnv exampleCfg s0))
   = [embed titleUnsealed descUnsealed 0x2ecc71 ''2026-01-01T00:00:00Z'']"
  by (simp add: intents_def example_run_posts)

text \<open>
  C7 as stated fails: in the run of three keys that unseals at the second, the
  reconciler's notification is the green embed, whose severity is Info and not Critical.
\<close>

theorem reconciler_notification_not_critical:
  "intents s0 (snd (runUnlock exampleEnv exampleCfg s0))
     = [embed titleUnsealed descUnsealed 0x2ecc71 ''2026-01-01T00:00:00Z'']
   \<and> severityOfColor (Color (embed titleUnsealed descUnsealed 0x2ecc71 ''2026-01-01T00:00:00Z''))
     = Some Info
   \<and> severityOfColor (Color (embed titleUnsealed descUnsealed 0x2ecc71 ''2026-01-01T00:00:00Z''))
     \<noteq> Some Critical"
  by (simp add: example_run_intents)

text \<open>
  C7, amended. Whatever the reconciler posts is the "Vault Unsealed" notification with the
  fixed description and the colour \<open>0x2ecc71\<close>: title, description and colour of the
  monitor's "unsealed" intent, and Info severity.
\<close>

theorem reconciler_notification_is_info:
  "\<forall>i \<in> set (intents s (snd (runUnlock e cfg s))).
     Title i = titleUnsealed
     \<and> Description i = ''Vault has been successfully unsealed.''
     \<and> Color i = 0x2ecc71
     \<and> severityOfColor (Color i) = Some Info"
  using posts_runUnlock [of e cfg s] by (auto simp add: descUnsealed_def)

theorem reconciler_notification_is_info_witness:
  "embed titleUnsealed descUnsealed 0x2ecc71 ''2026-01-01T00:00:00Z''
     \<in> set (intents s0 (snd (runUnlock exampleEnv exampleCfg s0)))
   \<and> severityOfColor (Color (embed titleUnsealed descUnsealed 0x2ecc71 ''2026-01-01T00:00:00Z''))
     = Some Info"
proof -
  have m: "embed titleUnsealed descUnsealed 0x2ecc71 ''2026-01-01T00:00:00Z''
             \<in> set (intents s0 (snd (runUnlock exampleEnv exampleCfg s0)))"
    by (simp add: example_run_intents)
  from reconciler_notification_is_info [of s0 exampleEnv exampleCfg] m
  show ?thesis
    by blast
qed

subsection \<open>Notification failure does not reach the caller\<close>

text \<open>
  \<^verbatim>\<open>sendDiscord\<close> returns an error when delivery fails, but no caller reads it. Two states that
  agree up to the warnings printed stay so under every step, whatever the webhook answers.
\<close>

lemma quiet_logs [simp]: "posts (quiet s) = posts s" "requests (quiet s) = requests s"
  by (simp_all add: quiet_def)

lemma quiet_eq_posts: "quiet s1 = quiet s2 \<Longrightarrow> posts s1 = posts s2"
  by (metis quiet_logs(1))

lemma quiet_eq_requests: "quiet s1 = quiet s2 \<Longrightarrow> requests s1 = requests s2"
  by (metis quiet_logs(2))

lemma quiet_println: "quiet (println l s) = (if isWarning l then quiet s else println l (quiet s))"
  by (simp add: quiet_def println_def)

lemma quiet_println_cong: "quiet s1 = quiet s2 \<Longrightarrow> quiet (println l s1) = quiet (println l s2)"
  by (simp add: quiet_println)

lemma quiet_posts_update:
  "quiet (s\<lparr>posts := ps\<rparr>) = (quiet s)\<lparr>posts := ps\<rparr>"
  by (simp add: quiet_def)

lemma quiet_requests_update:
  "quiet (s\<lparr>requests := rs\<rparr>) = (quiet s)\<lparr>requests := rs\<rparr>"
  by (simp add: quiet_def)

lemma quiet_sendDiscord:
  "quiet (snd (sendDiscord e url title desc color s))
   = (quiet s)\<lparr>posts := posts s @ [(url, mkPayload title desc color (now e (length (posts s))))]\<rparr>"
  by (simp add: sendDiscord_def Let_def quiet_println quiet_posts_update
           split: reply.split body.split)

lemma quiet_sendDiscord_cong:
  assumes "quiet s1 = quiet s2"
  shows "quiet (snd (sendDiscord (e\<lparr>webhookPost := w\<rparr>) url title desc color s1))
         = quiet (snd (sendDiscord e url title desc color s2))"
  using assms quiet_eq_posts [OF assms] by (simp add: quiet_sendDiscord)

lemma quiet_processAuditLine_cong:
  assumes "quiet s1 = quiet s2"
  shows "quiet (processAuditLine (e\<lparr>webhookPost := w\<rparr>) line url s1)
         = quiet (processAuditLine e line url s2)"
proof (cases "unmarshalEntry e line")
  case (Inl x)
  then show ?thesis
    using assms by (simp add: processAuditLine_def)
next
  case (Inr entry)
  define alert where
    "alert = (\<lambda>e s. println (PrivilegedLine (Auth_DisplayName entry) (Request_Path entry))
                (snd (sendDiscord e url titleAlert
                        (alertDesc (Auth_DisplayName entry) (Request_Path entry)) 0xe74c3c s)))"
  define unsealed where
    "unsealed = (\<lambda>e s. println UnsealDetectedLine
                   (snd (sendDiscord e url titleUnsealed descUnsealed 0x2ecc71 s)))"
  define P where
    "P \<longleftrightarrow> Contains (Request_Path entry) ''sign/root''
           \<or> Contains (Request_Path entry) ''database/creds/admin''"
  define U where
    "U \<longleftrightarrow> Contains (Request_Path entry) ''sys/unseal'' \<and> Error entry = []"
  have shape: "processAuditLine e' line url s
        = (if U then unsealed e' (if P then alert e' s else s)
           else (if P then alert e' s else s))"
    if "unmarshalEntry e' line = Inr entry" for e' s
    using that by (simp add: processAuditLine_def Let_def alert_def unsealed_def P_def U_def)
  have a: "quiet (alert (e\<lparr>webhookPost := w\<rparr>) t1) = quiet (alert e t2)"
    if "quiet t1 = quiet t2" for t1 t2
    unfolding alert_def by (rule quiet_println_cong [OF quiet_sendDiscord_cong [OF that]])
  have u: "quiet (unsealed (e\<lparr>webhookPost := w\<rparr>) t1) = quiet (unsealed e t2)"
    if "quiet t1 = quiet t2" for t1 t2
    unfolding unsealed_def by (rule quiet_println_cong [OF quiet_sendDiscord_cong [OF that]])
  have first: "quiet (if P then alert (e\<lparr>webhookPost := w\<rparr>) s1 else s1)
               = quiet (if P then alert e s2 else s2)"
    using a [OF assms] assms by (cases P) simp_all
  have e': "unmarshalEntry (e\<lparr>webhookPost := w\<rparr>) line = Inr entry"
    using Inr by simp
  show ?thesis
    unfolding shape [OF e'] shape [OF Inr]
    using u [OF first] first by (cases U) simp_all
qed

lemma auditLoop_cong:
  assumes "quiet s1 = quiet s2"
  shows "fst (auditLoop (e\<lparr>webhookPost := w\<rparr>) cfg evs s1) = fst (auditLoop e cfg evs s2)
       \<and> quiet (snd (auditLoop (e\<lparr>webhookPost := w\<rparr>) cfg evs s1))
         = quiet (snd (auditLoop e cfg evs s2))"
  using assms
proof (induction evs arbitrary: s1 s2)
  case Nil
  then show ?case by simp
next
  case (Cons ev evs)
  show ?case
  proof (cases ev)
    case (Line ln err)
    show ?thesis
    proof (cases err)
      case None
      have "quiet (processAuditLine (e\<lparr>webhookPost := w\<rparr>) ln (WebhookURL cfg) s1)
            = quiet (processAuditLine e ln (WebhookURL cfg) s2)"
        by (rule quiet_processAuditLine_cong [OF Cons.prems])
      from Cons.IH [OF this] show ?thesis
        by (simp add: Line None)
    next
      case (Some x)
      have "quiet (println (ReadErrorLine x) s1) = quiet (println (ReadErrorLine x) s2)"
        by (rule quiet_println_cong [OF Cons.prems])
      from Cons.IH [OF this] show ?thesis
        by (simp add: Line Some)
    qed
  next
    case LinesClosed
    then show ?thesis using Cons.prems by simp
  next
    case Signal
    have "quiet (println ShuttingDownLine s1) = quiet (println ShuttingDownLine s2)"
      by (rule quiet_println_cong [OF Cons.prems])
    then show ?thesis
      by (simp add: Signal quiet_sendDiscord_cong)
  qed
qed

lemma runAudit_cong:
  "fst (runAudit (e\<lparr>webhookPost := w\<rparr>) cfg evs s) = fst (runAudit e cfg evs s)
   \<and> quiet (snd (runAudit (e\<lparr>webhookPost := w\<rparr>) cfg evs s))
     = quiet (snd (runAudit e cfg evs s))"
proof -
  define t1 where
    "t1 = snd (sendDiscord (e\<lparr>webhookPost := w\<rparr>) (WebhookURL cfg) titleActive
                 ''Monitoring audit logs for Starnix cluster...'' 0x3498db
                 (println WardenActiveLine s))"
  define t2 where
    "t2 = snd (sendDiscord e (WebhookURL cfg) titleActive
                 ''Monitoring audit logs for Starnix cluster...'' 0x3498db
                 (println WardenActiveLine s))"
  have q: "quiet t1 = quiet t2"
    unfolding t1_def t2_def by (rule quiet_sendDiscord_cong) simp
  have r1: "runAudit (e\<lparr>webhookPost := w\<rparr>) cfg evs s
            = (case statFile e (AuditLog cfg) of
                 Some x \<Rightarrow> (Returned (Some (AuditLogNotAccessible x)), t1)
               | None \<Rightarrow>
                   (case tailFile e (AuditLog cfg) of
                      Some x \<Rightarrow> (Returned (Some (TailAuditLog x)), t1)
                    | None \<Rightarrow> auditLoop (e\<lparr>webhookPost := w\<rparr>) cfg evs t1))"
    by (simp add: runAudit_def t1_def Let_def split: option.split)
  have r2: "runAudit e cfg evs s
            = (case statFile e (AuditLog cfg) of
                 Some x \<Rightarrow> (Returned (Some (AuditLogNotAccessible x)), t2)
               | None \<Rightarrow>
                   (case tailFile e (AuditLog cfg) of
                      Some x \<Rightarrow> (Returned (Some (TailAuditLog x)), t2)
                    | None \<Rightarrow> auditLoop e cfg evs t2))"
    by (simp add: runAudit_def t2_def Let_def split: option.split)
  show ?thesis
    using q auditLoop_cong [OF q, where e = e and w = w and cfg = cfg and evs = evs]
    by (simp add: r1 r2 split: option.split)
qed

lemma exchange_webhook [simp]: "exchange (e\<lparr>webhookPost := w\<rparr>) n r = exchange e n r"
  by (cases r) (simp add: exchange_def split: option.split reply.split body.split sum.split)

lemma roundTrip_cong:
  assumes "quiet s1 = quiet s2"
  shows "fst (roundTrip (e\<lparr>webhookPost := w\<rparr>) r s1) = fst (roundTrip e r s2)
       \<and> quiet (snd (roundTrip (e\<lparr>webhookPost := w\<rparr>) r s1)) = quiet (snd (roundTrip e r s2))"
  using assms quiet_eq_requests [OF assms]
  by (simp add: roundTrip_def Let_def quiet_requests_update split: exchange.split)

lemma unsealLoop_cong:
  assumes "quiet s1 = quiet s2"
  shows "fst (unsealLoop (e\<lparr>webhookPost := w\<rparr>) cfg i keys s1) = fst (unsealLoop e cfg i keys s2)
       \<and> quiet (snd (unsealLoop (e\<lparr>webhookPost := w\<rparr>) cfg i keys s1))
         = quiet (snd (unsealLoop e cfg i keys s2))"
  using assms
proof (induction keys arbitrary: i s1 s2)
  case Nil
  then show ?case by simp
next
  case (Cons key keys)
  obtain ex t1 where t1: "roundTrip (e\<lparr>webhookPost := w\<rparr>) (unsealRequest cfg key) s1 = (ex, t1)"
    by (cases "roundTrip (e\<lparr>webhookPost := w\<rparr>) (unsealRequest cfg key) s1")
  obtain ex' t2 where t2: "roundTrip e (unsealRequest cfg key) s2 = (ex', t2)"
    by (cases "roundTrip e (unsealRequest cfg key) s2")
  from roundTrip_cong [OF Cons.prems, where e = e and w = w and r = "unsealRequest cfg key"]
  have same: "ex' = ex" and q: "quiet t1 = quiet t2"
    by (simp_all add: t1 t2)
  show ?case
  proof (cases ex)
    case (Status st)
    show ?thesis
    proof (cases "Sealed st")
      case True
      have "quiet (println (ProgressLine (Progress st) (Threshold st)) t1)
            = quiet (println (ProgressLine (Progress st) (Threshold st)) t2)"
        by (rule quiet_println_cong [OF q])
      from Cons.IH [OF this, where i = "i + 1"] show ?thesis
        by (simp add: t1 t2 same Status True)
    next
      case False
      have "quiet (println UnsealedLine t1) = quiet (println UnsealedLine t2)"
        by (rule quiet_println_cong [OF q])
      then show ?thesis
        by (simp add: t1 t2 same Status False quiet_sendDiscord_cong)
    qed
  qed (simp_all add: t1 t2 same q)
qed

lemma runUnlock_cong:
  "fst (runUnlock (e\<lparr>webhookPost := w\<rparr>) cfg s) = fst (runUnlock e cfg s)
   \<and> quiet (snd (runUnlock (e\<lparr>webhookPost := w\<rparr>) cfg s)) = quiet (snd (runUnlock e cfg s))"
proof -
  obtain ex t1 where t1: "roundTrip (e\<lparr>webhookPost := w\<rparr>) (healthRequest cfg) s = (ex, t1)"
    by (cases "roundTrip (e\<lparr>webhookPost := w\<rparr>) (healthRequest cfg) s")
  obtain ex' t2 where t2: "roundTrip e (healthRequest cfg) s = (ex', t2)"
    by (cases "roundTrip e (healthRequest cfg) s")
  have "quiet s = quiet s"
    by simp
  from roundTrip_cong [OF this, where e = e and w = w and r = "healthRequest cfg"]
  have same: "ex' = ex" and q: "quiet t1 = quiet t2"
    by (simp_all add: t1 t2)
  show ?thesis
  proof (cases ex)
    case (Status st)
    show ?thesis
    proof (cases "Sealed st")
      case True
      have "quiet (println (SealedLine (length (UnsealKeys cfg))) t1)
            = quiet (println (SealedLine (length (UnsealKeys cfg))) t2)"
        by (rule quiet_println_cong [OF q])
      from unsealLoop_cong [OF this, where e = e and w = w and cfg = cfg and i = 0
          and keys = "UnsealKeys cfg"] show ?thesis
        by (simp add: runUnlock_def t1 t2 same Status True)
    next
      case False
      then show ?thesis
        by (simp add: runUnlock_def t1 t2 same Status quiet_println_cong [OF q])
    qed
  qed (simp_all add: runUnlock_def t1 t2 same q)
qed

text \<open>
  C8. Two runs that differ only in what the webhook answers (\<open>w\<close> in place of
  \<open>webhookPost e\<close>): processing an audit line, the monitor and the reconciler return the same
  result and end in states that agree on the requests made, the notifications attempted
  and every printed line but the delivery warnings.
\<close>

theorem notification_outcome_does_not_reach_caller:
  "quiet (processAuditLine (e\<lparr>webhookPost := w\<rparr>) line url s)
     = quiet (processAuditLine e line url s)
   \<and> fst (runAudit (e\<lparr>webhookPost := w\<rparr>) cfg evs s) = fst (runAudit e cfg evs s)
   \<and> quiet (snd (runAudit (e\<lparr>webhookPost := w\<rparr>) cfg evs s))
     = quiet (snd (runAudit e cfg evs s))
   \<and> fst (runUnlock (e\<lparr>webhookPost := w\<rparr>) cfg s) = fst (runUnlock e cfg s)
   \<and> quiet (snd (runUnlock (e\<lparr>webhookPost := w\<rparr>) cfg s))
     = quiet (snd (runUnlock e cfg s))"
proof -
  have "quiet s = quiet s"
    by simp
  from quiet_processAuditLine_cong [OF this, where e = e and w = w and line = line and url = url]
    runAudit_cong [where e = e and w = w and cfg = cfg and evs = evs and s = s]
    runUnlock_cong [where e = e and w = w and cfg = cfg and s = s]
  show ?thesis
    by simp
qed

lemma example_run_result: "fst (runUnlock exampleEnv exampleCfg s0) = None"
proof -
  have h: "exchange exampleEnv (length (requests s0)) (healthRequest exampleCfg)
             = Status sealedStatus"
    by (simp add: healthRequest_def exchange_exampleEnv)
  have i: "1 < length (UnsealKeys exampleCfg)"
    by simp
  have p: "\<forall>j<1. \<exists>st. exchange exampleEnv (length (requests s0) + 1 + j)
                          (unsealRequest exampleCfg (UnsealKeys exampleCfg ! j)) = Status st
                        \<and> Sealed st"
    by (simp add: unsealRequest_def exchange_exampleEnv)
  have u: "exchange exampleEnv (length (requests s0) + 1 + 1)
             (unsealRequest exampleCfg (UnsealKeys exampleCfg ! 1)) = Status unsealedStatus"
    by (simp add: unsealRequest_def exchange_exampleEnv)
  from runUnlock_unsealed_at [OF h _ i p u]
  show ?thesis
    by simp
qed

text \<open>
  The run of three keys with a webhook that answers 500: the reconciler returns nil as it
  does when the webhook answers 204, and the two final states differ in the warning only.
\<close>

theorem notification_outcome_does_not_reach_caller_witness:
  "fst (runUnlock (exampleEnv\<lparr>webhookPost := \<lambda>n u p. Resp 500 (Body ''error'' None)\<rparr>)
          exampleCfg s0) = None
   \<and> fst (runUnlock exampleEnv exampleCfg s0) = None
   \<and> quiet (snd (runUnlock (exampleEnv\<lparr>webhookPost := \<lambda>n u p. Resp 500 (Body ''error'' None)\<rparr>)
                   exampleCfg s0))
     = quiet (snd (runUnlock exampleEnv exampleCfg s0))"
  using notification_outcome_does_not_reach_caller
          [where e = exampleEnv and w = "\<lambda>n u p. Resp 500 (Body ''error'' None)"
             and cfg = exampleCfg and s = s0]
    example_run_result
  by simp

subsection \<open>Malformed audit lines\<close>

lemma processAuditLine_malformed:
  "unmarshalEntry e line = Inl x \<Longrightarrow> processAuditLine e line url s = s"
  by (simp add: processAuditLine_def)

lemma auditLoop_skips_malformed:
  assumes "unmarshalEntry e line = Inl x"
  shows "auditLoop e cfg (before @ Line line None # after) s = auditLoop e cfg (before @ after) s"
proof (induction before arbitrary: s)
  case Nil
  show ?case
    by (simp add: processAuditLine_malformed [OF assms])
next
  case (Cons ev before)
  show ?case
  proof (cases ev)
    case (Line ln err)
    then show ?thesis
      using Cons.IH by (cases err) simp_all
  qed simp_all
qed

lemma example_malformed: "unmarshalEntry exampleEnv ''{not json'' = Inl ''invalid character''"
  by (simp add: exampleEnv_def exampleEntries_def lineRoot_def lineUnseal_def lineDenied_def
        lineBoth_def)

text \<open>
  C9. A line that does not parse changes nothing: \<^verbatim>\<open>processAuditLine\<close> returns with the state
  as it was (no post, nothing printed, no error to return), so it yields no intent; and the
  monitor, at whatever place of the stream the line comes, goes on as if the line had not
  been there.
\<close>

theorem malformed_line_is_skipped:
  assumes "unmarshalEntry e line = Inl x"
  shows "processAuditLine e line url s = s
       \<and> intents s (processAuditLine e line url s) = []
       \<and> auditLoop e cfg (before @ Line line None # after) s
         = auditLoop e cfg (before @ after) s
       \<and> runAudit e cfg (before @ Line line None # after) s
         = runAudit e cfg (before @ after) s"
  by (simp add: processAuditLine_malformed [OF assms] auditLoop_skips_malformed [OF assms]
        runAudit_def Let_def split: option.split)

theorem malformed_line_is_skipped_witness:
  "unmarshalEntry exampleEnv ''{not json'' = Inl ''invalid character''
   \<and> processAuditLine exampleEnv ''{not json'' ''hook'' s0 = s0
   \<and> auditLoop exampleEnv exampleCfg [Line ''{not json'' None, Line lineBoth None] s0
     = auditLoop exampleEnv exampleCfg [Line lineBoth None] s0
   \<and> intents s0 (snd (auditLoop exampleEnv exampleCfg
                         [Line ''{not json'' None, Line lineBoth None] s0))
     = [embed titleAlert (alertDesc ''eve'' ''database/creds/admin/sys/unseal/sign/root'')
          0xe74c3c ''2026-01-01T00:00:00Z'',
        embed titleUnsealed descUnsealed 0x2ecc71 ''2026-01-01T00:00:00Z'']"
proof -
  have a: "sublist ''sys/unseal'' ''database/creds/admin/sys/unseal/sign/root''"
    by (simp add: Contains_sublist [symmetric])
  have b: "sublist ''sign/root'' ''database/creds/admin/sys/unseal/sign/root''"
    by (simp add: Contains_sublist [symmetric])
  have next_line:
    "intents s0 (snd (auditLoop exampleEnv exampleCfg [Line lineBoth None] s0))
     = [embed titleAlert (alertDesc ''eve'' ''database/creds/admin/sys/unseal/sign/root'')
          0xe74c3c ''2026-01-01T00:00:00Z'',
        embed titleUnsealed descUnsealed 0x2ecc71 ''2026-01-01T00:00:00Z'']"
    by (simp add: intents_processAuditLine [OF example_both] a b)
  from malformed_line_is_skipped [OF example_malformed, of "''hook''" s0 exampleCfg "[]"
         "[Line lineBoth None]"]
    example_malformed next_line
  show ?thesis
    by simp
qed

subsection \<open>Loading the configuration\<close>

lemma readConfig_Decodes:
  "configFile e path = Decodes cfg \<Longrightarrow>
     readConfig e path =
       (if Address cfg = [] then Inl AddressRequired
        else if UnsealKeys cfg = [] then Inl UnsealKeysRequired
        else if WebhookURL cfg = [] then Inl WebhookURLRequired
        else Inr cfg)"
  by (simp add: readConfig_def)

lemma main_config_error:
  "readConfig e path = Inl x \<Longrightarrow>
     fst (main e path args evs s) = Returned 1
     \<and> requests (snd (main e path args evs s)) = requests s
     \<and> posts (snd (main e path args evs s)) = posts s"
  by (simp add: main_def)

lemma exchange_noAuditLogEnv [simp]: "exchange noAuditLogEnv n r = exchange exampleEnv n r"
  by (cases r)
    (simp add: exchange_def noAuditLogEnv_def split: option.split reply.split body.split sum.split)

lemma noAuditLogCfg_fields [simp]:
  "Address noAuditLogCfg = ''http://127.0.0.1:8200''"
  "UnsealKeys noAuditLogCfg = [''k1'', ''k2'', ''k3'']"
  "WebhookURL noAuditLogCfg = ''https://discord.test/hook''"
  "AuditLog noAuditLogCfg = []"
  by (simp_all add: noAuditLogCfg_def exampleCfg_def)

lemma readConfig_noAuditLog: "readConfig noAuditLogEnv path = Inr noAuditLogCfg"
proof -
  have "configFile noAuditLogEnv path = Decodes noAuditLogCfg"
    by (simp add: noAuditLogEnv_def)
  from readConfig_Decodes [OF this] show ?thesis
    by simp
qed

lemma noAuditLog_unlock: "fst (runUnlock noAuditLogEnv noAuditLogCfg s0) = None"
proof -
  have h: "exchange noAuditLogEnv (length (requests s0)) (healthRequest noAuditLogCfg)
             = Status sealedStatus"
    by (simp add: healthRequest_def exchange_exampleEnv)
  have i: "1 < length (UnsealKeys noAuditLogCfg)"
    by simp
  have p: "\<forall>j<1. \<exists>st. exchange noAuditLogEnv (length (requests s0) + 1 + j)
                          (unsealRequest noAuditLogCfg (UnsealKeys noAuditLogCfg ! j))
                        = Status st \<and> Sealed st"
    by (simp add: unsealRequest_def exchange_exampleEnv)
  have u: "exchange noAuditLogEnv (length (requests s0) + 1 + 1)
             (unsealRequest noAuditLogCfg (UnsealKeys noAuditLogCfg ! 1))
           = Status unsealedStatus"
    by (simp add: unsealRequest_def exchange_exampleEnv)
  from runUnlock_unsealed_at [OF h _ i p u]
  show ?thesis
    by simp
qed

text \<open>
  C6 as stated fails for the fourth field: a configuration with an empty \<^verbatim>\<open>audit_log\<close> (and
  the other three fields set) loads. In \<^verbatim>\<open>unlock\<close> mode the process then ends with status 0;
  in \<^verbatim>\<open>audit\<close> mode the missing file is found by \<^verbatim>\<open>runAudit\<close>, after the "active" notification
  has been posted.
\<close>

theorem empty_audit_log_is_not_rejected:
  "AuditLog noAuditLogCfg = []
   \<and> readConfig noAuditLogEnv ''/etc/vault-warden.yaml'' = Inr noAuditLogCfg
   \<and> fst (main noAuditLogEnv ''/etc/vault-warden.yaml'' [''unlock''] [] s0) = Returned 0
   \<and> fst (main noAuditLogEnv ''/etc/vault-warden.yaml'' [''audit''] [] s0) = Returned 1
   \<and> posts (snd (main noAuditLogEnv ''/etc/vault-warden.yaml'' [''audit''] [] s0))
     = [(''https://discord.test/hook'',
         mkPayload titleActive ''Monitoring audit logs for Starnix cluster...'' 0x3498db
           ''2026-01-01T00:00:00Z'')]"
proof -
  have unlock: "fst (main noAuditLogEnv ''/etc/vault-warden.yaml'' [''unlock''] [] s0) = Returned 0"
    using noAuditLog_unlock
    by (cases "runUnlock noAuditLogEnv noAuditLogCfg s0")
      (simp add: main_def readConfig_noAuditLog)
  have stat: "statFile noAuditLogEnv [] = Some ''no such file or directory''"
    by (simp add: noAuditLogEnv_def)
  have now: "now noAuditLogEnv 0 = ''2026-01-01T00:00:00Z''"
    by (simp add: noAuditLogEnv_def)
  have audit: "main noAuditLogEnv ''/etc/vault-warden.yaml'' [''audit''] [] s0
      = (Returned 1,
         println (ErrorLine (AuditLogNotAccessible ''no such file or directory''))
           (snd (sendDiscord noAuditLogEnv ''https://discord.test/hook'' titleActive
                   ''Monitoring audit logs for Starnix cluster...'' 0x3498db
                   (println WardenActiveLine s0))))"
    by (simp add: main_def readConfig_noAuditLog runAudit_def stat)
  show ?thesis
    by (simp add: readConfig_noAuditLog unlock audit now)
qed

text \<open>
  C6, amended. A configuration whose address, key list or webhook URL is empty does not
  load: \<^verbatim>\<open>readConfig\<close> returns the error of the first such field, and \<^verbatim>\<open>main\<close> exits with
  status 1 having made no request and no post. A configuration with these three fields set
  loads, whatever its audit log path is.
\<close>

theorem config_required_fields:
  assumes "configFile e path = Decodes cfg"
  shows "(Address cfg = [] \<or> UnsealKeys cfg = [] \<or> WebhookURL cfg = [] \<longrightarrow>
            readConfig e path
              = Inl (if Address cfg = [] then AddressRequired
                     else if UnsealKeys cfg = [] then UnsealKeysRequired
                     else WebhookURLRequired)
            \<and> fst (main e path args evs s) = Returned 1
            \<and> requests (snd (main e path args evs s)) = requests s
            \<and> posts (snd (main e path args evs s)) = posts s)
       \<and> (Address cfg \<noteq> [] \<and> UnsealKeys cfg \<noteq> [] \<and> WebhookURL cfg \<noteq> [] \<longrightarrow>
            readConfig e path = Inr cfg)"
proof (intro conjI impI)
  assume bad: "Address cfg = [] \<or> UnsealKeys cfg = [] \<or> WebhookURL cfg = []"
  then have r: "readConfig e path
              = Inl (if Address cfg = [] then AddressRequired
                     else if UnsealKeys cfg = [] then UnsealKeysRequired
                     else WebhookURLRequired)"
    by (auto simp add: readConfig_Decodes [OF assms])
  then show "readConfig e path
              = Inl (if Address cfg = [] then AddressRequired
                     else if UnsealKeys cfg = [] then UnsealKeysRequired
                     else WebhookURLRequired)" .
  from main_config_error [OF r]
  show "fst (main e path args evs s) = Returned 1"
    and "requests (snd (main e path args evs s)) = requests s"
    and "posts (snd (main e path args evs s)) = posts s"
    by simp_all
next
  assume "Address cfg \<noteq> [] \<and> UnsealKeys cfg \<noteq> [] \<and> WebhookURL cfg \<noteq> []"
  then show "readConfig e path = Inr cfg"
    by (simp add: readConfig_Decodes [OF assms])
qed

theorem config_required_fields_witness:
  "configFile (exampleEnv\<lparr>configFile := \<lambda>p. Decodes (exampleCfg\<lparr>WebhookURL := []\<rparr>)\<rparr>) ''c''
     = Decodes (exampleCfg\<lparr>WebhookURL := []\<rparr>)
   \<and> WebhookURL (exampleCfg\<lparr>WebhookURL := []\<rparr>) = []
   \<and> readConfig (exampleEnv\<lparr>configFile := \<lambda>p. Decodes (exampleCfg\<lparr>WebhookURL := []\<rparr>)\<rparr>) ''c''
     = Inl WebhookURLRequired
   \<and> fst (main (exampleEnv\<lparr>configFile := \<lambda>p. Decodes (exampleCfg\<lparr>WebhookURL := []\<rparr>)\<rparr>) ''c''
           [''audit''] [Signal] s0) = Returned 1
   \<and> posts (snd (main (exampleEnv\<lparr>configFile := \<lambda>p. Decodes (exampleCfg\<lparr>WebhookURL := []\<rparr>)\<rparr>)
                   ''c'' [''audit''] [Signal] s0)) = []
   \<and> configFile noAuditLogEnv ''c'' = Decodes noAuditLogCfg
   \<and> readConfig noAuditLogEnv ''c'' = Inr noAuditLogCfg"
proof -
  let ?e = "exampleEnv\<lparr>configFile := \<lambda>p. Decodes (exampleCfg\<lparr>WebhookURL := []\<rparr>)\<rparr>"
  have c1: "configFile ?e ''c'' = Decodes (exampleCfg\<lparr>WebhookURL := []\<rparr>)"
    by simp
  have c2: "configFile noAuditLogEnv ''c'' = Decodes noAuditLogCfg"
    by (simp add: noAuditLogEnv_def)
  have f: "Address (exampleCfg\<lparr>WebhookURL := []\<rparr>) \<noteq> []"
    "UnsealKeys (exampleCfg\<lparr>WebhookURL := []\<rparr>) \<noteq> []"
    by (simp_all add: exampleCfg_def)
  from config_required_fields [OF c1, of "[''audit'']" "[Signal]" s0]
    config_required_fields [OF c2, of "[]" "[]" s0] c1 c2 f
  show ?thesis
    by simp
qed

end
